theory Spec2Isabelle
  imports Main "HOL-Library.Sublist" "HOL-Library.Word" "HOL-Library.AList"
begin

section \<open>Go strings and the string functions the controller uses\<close>

text \<open>
  A Go string is a sequence of bytes, and so is a HOL \<open>string\<close>. The functions below are
  the ones of package \<^verbatim>\<open>strings\<close> that the controller calls, at the arguments it
  calls them with.
\<close>

text \<open>\<^verbatim>\<open>strings.Contains(s, sub)\<close>: \<open>sub\<close> occurs in \<open>s\<close> as a contiguous block.\<close>

fun Contains :: "string \<Rightarrow> string \<Rightarrow> bool" where
  "Contains [] sub = (sub = [])"
| "Contains (c # cs) sub = (prefix sub (c # cs) \<or> Contains cs sub)"

text \<open>
  \<^verbatim>\<open>strings.Split(s, "\n")\<close>: the pieces between line feeds; the result is never
  empty, and a trailing line feed gives a last empty piece.
\<close>

fun Split :: "string \<Rightarrow> string list" where
  "Split [] = [[]]"
| "Split (c # cs) =
     (if c = CHR 0x0A then [] # Split cs
      else (case Split cs of [] \<Rightarrow> [[c]] | l # ls \<Rightarrow> (c # l) # ls))"

text \<open>
  White space as \<^verbatim>\<open>unicode.IsSpace\<close> has it, in UTF-8: the six ASCII characters,
  U+0085, U+00A0, U+1680, U+2000 to U+200A, U+2028, U+2029, U+202F, U+205F and U+3000.
\<close>

definition spaceRunes :: "string list" where
  "spaceRunes =
    [[CHR 0x09], [CHR 0x0A], [CHR 0x0B], [CHR 0x0C], [CHR 0x0D], [CHR 0x20],
     [CHR 0xC2, CHR 0x85], [CHR 0xC2, CHR 0xA0],
     [CHR 0xE1, CHR 0x9A, CHR 0x80],
     [CHR 0xE2, CHR 0x80, CHR 0x80], [CHR 0xE2, CHR 0x80, CHR 0x81],
     [CHR 0xE2, CHR 0x80, CHR 0x82], [CHR 0xE2, CHR 0x80, CHR 0x83],
     [CHR 0xE2, CHR 0x80, CHR 0x84], [CHR 0xE2, CHR 0x80, CHR 0x85],
     [CHR 0xE2, CHR 0x80, CHR 0x86], [CHR 0xE2, CHR 0x80, CHR 0x87],
     [CHR 0xE2, CHR 0x80, CHR 0x88], [CHR 0xE2, CHR 0x80, CHR 0x89],
     [CHR 0xE2, CHR 0x80, CHR 0x8A],
     [CHR 0xE2, CHR 0x80, CHR 0xA8], [CHR 0xE2, CHR 0x80, CHR 0xA9],
     [CHR 0xE2, CHR 0x80, CHR 0xAF],
     [CHR 0xE2, CHR 0x81, CHR 0x9F],
     [CHR 0xE3, CHR 0x80, CHR 0x80]]"

text \<open>
  The width in bytes of the white-space character a string starts with, 0 when it starts
  with none. A byte that opens one of the encodings above is never the continuation byte
  of another character, so looking at every byte position finds the same white space as
  Go's decoding from the left does.
\<close>

definition space_width :: "string \<Rightarrow> nat" where
  "space_width s = (case find (\<lambda>w. prefix w s) spaceRunes of None \<Rightarrow> 0 | Some w \<Rightarrow> length w)"

text \<open>
  \<^verbatim>\<open>strings.Fields(s)\<close>: the maximal blocks of \<open>s\<close> without white space.
  \<open>fields_go k tok s\<close> has \<open>k\<close> bytes of a white-space character left to skip and the
  field \<open>tok\<close> open.
\<close>

fun fields_go :: "nat \<Rightarrow> string \<Rightarrow> string \<Rightarrow> string list" where
  "fields_go k tok [] = (if tok = [] then [] else [tok])"
| "fields_go k tok (c # cs) =
     (if 0 < k then fields_go (k - 1) tok cs
      else (case space_width (c # cs) of
              0 \<Rightarrow> fields_go 0 (tok @ [c]) cs
            | Suc w \<Rightarrow> (if tok = [] then [] else [tok]) @ fields_go w [] cs))"

definition Fields :: "string \<Rightarrow> string list" where
  "Fields s = fields_go 0 [] s"

text \<open>\<^verbatim>\<open>strings.Trim(s, "\"")\<close>: every leading and trailing double quote removed.\<close>

definition Trim :: "string \<Rightarrow> string" where
  "Trim s = rev (dropWhile (\<lambda>c. c = CHR 0x22) (rev (dropWhile (\<lambda>c. c = CHR 0x22) s)))"

text \<open>The verb \<^verbatim>\<open>%d\<close> of \<^verbatim>\<open>fmt\<close> on an integer.\<close>

fun showNat :: "nat \<Rightarrow> string" where
  "showNat n = (if n < 10 then [''0123456789'' ! n] else showNat (n div 10) @ [''0123456789'' ! (n mod 10)])"

definition showInt :: "int \<Rightarrow> string" where
  "showInt i = (if i < 0 then CHR ''-'' # showNat (nat (- i)) else showNat (nat i))"

declare showNat.simps [simp del]

section \<open>Errors, the environment and its trace\<close>

text \<open>
  A Go \<^verbatim>\<open>error\<close> is a value with a message. The operating system's errors are the
  ones \<^verbatim>\<open>os.IsNotExist\<close> tells apart and all the others; \<open>Errorf msg w\<close> is the
  error \<^verbatim>\<open>fmt.Errorf\<close> builds, with its formatted message and the error it wraps
  through \<^verbatim>\<open>%w\<close>, if any. A \<^verbatim>\<open>nil\<close> error is \<open>None\<close>.
\<close>

datatype error =
    ErrNotExist string
  | ErrOther string
  | Errorf string "error option"

fun Error :: "error \<Rightarrow> string" where
  "Error (ErrNotExist m) = m"
| "Error (ErrOther m) = m"
| "Error (Errorf m w) = m"

fun IsNotExist :: "error option \<Rightarrow> bool" where
  "IsNotExist (Some (ErrNotExist m)) = True"
| "IsNotExist e = False"

text \<open>
  A pod as the controller reads it: its name and its ownership references, each a kind
  and a name.
\<close>

record OwnerReference =
  Kind :: string
  Name :: string

record Pod =
  PodName :: string
  OwnerReferences :: "OwnerReference list"

text \<open>The restart method of \<^verbatim>\<open>k8s.Client\<close> a workload kind is dispatched to.\<close>

datatype restart_method = RestartDeployment | RestartStatefulSet | RestartDaemonSet | RestartReplicaSet

text \<open>
  Every call that leaves the process is an event of the trace, with its arguments and
  with what the environment answered: the file system calls of package \<^verbatim>\<open>os\<close>, a
  run of the installer tool (program, arguments; combined output and exit error),
  \<^verbatim>\<open>time.Sleep\<close>, and the cluster calls (namespace first).
\<close>

datatype event =
    EvStat string "error option"
  | EvReadFile string "error + string"
  | EvWriteFile string string "error option"
  | EvRemove string "error option"
  | EvRemoveAll string "error option"
  | EvExec string "string list" "string \<times> error option"
  | EvSleep "64 word"
  | EvListPods string string "error + Pod list"
  | EvGetReplicaSet string string "error + OwnerReference list"
  | EvRestart restart_method string string "error option"

text \<open>
  The environment answers each call from the trace so far and the call's arguments, so
  that two calls with the same arguments may be answered differently.
  \<^verbatim>\<open>filepath.Join\<close> is a function of its arguments alone.
\<close>

record env =
  filepath_Join :: "string list \<Rightarrow> string"
  os_Stat :: "event list \<Rightarrow> string \<Rightarrow> error option"
  os_ReadFile :: "event list \<Rightarrow> string \<Rightarrow> error + string"
  os_WriteFile :: "event list \<Rightarrow> string \<Rightarrow> string \<Rightarrow> error option"
  os_Remove :: "event list \<Rightarrow> string \<Rightarrow> error option"
  os_RemoveAll :: "event list \<Rightarrow> string \<Rightarrow> error option"
  exec_Command :: "event list \<Rightarrow> string \<Rightarrow> string list \<Rightarrow> string \<times> error option"
  pods_List :: "event list \<Rightarrow> string \<Rightarrow> string \<Rightarrow> error + Pod list"
  replicaSets_Get :: "event list \<Rightarrow> string \<Rightarrow> string \<Rightarrow> error + OwnerReference list"
  client_Restart :: "event list \<Rightarrow> restart_method \<Rightarrow> string \<Rightarrow> string \<Rightarrow> error option"

definition Stat :: "env \<Rightarrow> string \<Rightarrow> event list \<Rightarrow> error option \<times> event list" where
  "Stat E p tr = (let r = os_Stat E tr p in (r, tr @ [EvStat p r]))"

definition ReadFile :: "env \<Rightarrow> string \<Rightarrow> event list \<Rightarrow> (error + string) \<times> event list" where
  "ReadFile E p tr = (let r = os_ReadFile E tr p in (r, tr @ [EvReadFile p r]))"

definition WriteFile :: "env \<Rightarrow> string \<Rightarrow> string \<Rightarrow> event list \<Rightarrow> error option \<times> event list" where
  "WriteFile E p s tr = (let r = os_WriteFile E tr p s in (r, tr @ [EvWriteFile p s r]))"

definition Remove :: "env \<Rightarrow> string \<Rightarrow> event list \<Rightarrow> error option \<times> event list" where
  "Remove E p tr = (let r = os_Remove E tr p in (r, tr @ [EvRemove p r]))"

definition RemoveAll :: "env \<Rightarrow> string \<Rightarrow> event list \<Rightarrow> error option \<times> event list" where
  "RemoveAll E p tr = (let r = os_RemoveAll E tr p in (r, tr @ [EvRemoveAll p r]))"

definition Command :: "env \<Rightarrow> string \<Rightarrow> string list \<Rightarrow> event list \<Rightarrow> (string \<times> error option) \<times> event list" where
  "Command E prog args tr = (let r = exec_Command E tr prog args in (r, tr @ [EvExec prog args r]))"

definition Sleep :: "64 word \<Rightarrow> event list \<Rightarrow> event list" where
  "Sleep d tr = tr @ [EvSleep d]"

section \<open>The SteamCMD client (internal/steamcmd/client.go)\<close>

record Client =
  steamCMDPath :: string
  steamApp :: string
  steamAppID :: string
  gameMountPath :: string
  updateScript :: string

text \<open>
  Each method takes the environment, the client and the trace so far and returns its
  result with the extended trace. Log lines are not part of the model.
\<close>

definition isGameInstalled :: "env \<Rightarrow> Client \<Rightarrow> event list \<Rightarrow> bool \<times> event list" where
  "isGameInstalled E c tr =
     (let gameDir = filepath_Join E [gameMountPath c, steamApp c];
          (err, tr1) = Stat E gameDir tr
      in if IsNotExist err then (False, tr1)
         else (let srcdsFile = filepath_Join E [gameDir, ''srcds_run''];
                   (err2, tr2) = Stat E srcdsFile tr1
               in if IsNotExist err2 then (False, tr2) else (True, tr2)))"

definition buildidKey :: string where
  \<open>buildidKey = ''"buildid"''\<close>

text \<open>The loop of \<^verbatim>\<open>getInstalledBuildID\<close> over the manifest's lines.\<close>

fun scanManifest :: "string list \<Rightarrow> string option" where
  "scanManifest [] = None"
| "scanManifest (line # rest) =
     (if Contains line buildidKey then
        (let parts = Fields line
         in if 2 \<le> length parts then Some (Trim (parts ! 1)) else scanManifest rest)
      else scanManifest rest)"

definition manifestPath :: "env \<Rightarrow> Client \<Rightarrow> string" where
  "manifestPath E c =
     filepath_Join E [gameMountPath c, ''steamapps'', ''appmanifest_'' @ steamAppID c @ ''.acf'']"

definition getInstalledBuildID :: "env \<Rightarrow> Client \<Rightarrow> event list \<Rightarrow> (string \<times> error option) \<times> event list" where
  "getInstalledBuildID E c tr =
     (let (r, tr1) = ReadFile E (manifestPath E c) tr
      in case r of
           Inl err \<Rightarrow>
             if IsNotExist (Some err) then (([], None), tr1)
             else (([], Some (Errorf (''failed to read manifest: '' @ Error err) (Some err))), tr1)
         | Inr data \<Rightarrow>
             (case scanManifest (Split data) of
                Some buildID \<Rightarrow> ((buildID, None), tr1)
              | None \<Rightarrow> (([], Some (Errorf ''buildid not found in manifest'' None)), tr1)))"

definition appInfoScript :: "string \<Rightarrow> string" where
  "appInfoScript appID =
     ''@ShutdownOnFailedCommand 1\<newline>@NoPromptForPassword 1\<newline>login anonymous\<newline>app_info_print ''
       @ appID @ ''\<newline>quit\<newline>''"

definition appInfoScriptPath :: "env \<Rightarrow> Client \<Rightarrow> string" where
  "appInfoScriptPath E c = filepath_Join E [gameMountPath c, ''app_info_check.txt'']"

definition steamcmdProgram :: "Client \<Rightarrow> string" where
  "steamcmdProgram c = steamCMDPath c @ ''/steamcmd.sh''"

text \<open>
  The inner loop of \<^verbatim>\<open>getLatestBuildID\<close>, over the lines \<^verbatim>\<open>lines[i]\<close> to
  \<^verbatim>\<open>lines[i+49]\<close> that exist.
\<close>

fun scanWindow :: "string list \<Rightarrow> string option" where
  "scanWindow [] = None"
| "scanWindow (l # ls) =
     (if Contains l buildidKey \<and> \<not> Contains l ''branches'' then
        (let parts = Fields l
         in if 2 \<le> length parts then
              (let buildID = Trim (parts ! 1)
               in if buildID \<noteq> [] \<and> buildID \<noteq> ''0'' then Some buildID else scanWindow ls)
            else scanWindow ls)
      else scanWindow ls)"

text \<open>
  The outer loop of \<^verbatim>\<open>getLatestBuildID\<close>, on the lines from \<^verbatim>\<open>lines[i]\<close> on,
  with the flag \<^verbatim>\<open>inPublicBranch\<close>.
\<close>

fun parseAppInfo :: "string \<Rightarrow> bool \<Rightarrow> string list \<Rightarrow> string option" where
  \<open>parseAppInfo appID inPublicBranch [] = None\<close>
| \<open>parseAppInfo appID inPublicBranch (line # rest) =
     (if Contains line ''"public"'' then parseAppInfo appID True rest
      else if inPublicBranch \<and> Contains line ''"}'' \<and> \<not> Contains line buildidKey
        then parseAppInfo appID False rest
      else if inPublicBranch \<and> Contains line buildidKey \<and> 2 \<le> length (Fields line)
        then Some (Trim (Fields line ! 1))
      else if Contains line (''"'' @ appID @ ''"'') then
        (case scanWindow (take 50 (line # rest)) of
           Some buildID \<Rightarrow> Some buildID
         | None \<Rightarrow> parseAppInfo appID inPublicBranch rest)
      else parseAppInfo appID inPublicBranch rest)\<close>

definition getLatestBuildID :: "env \<Rightarrow> Client \<Rightarrow> event list \<Rightarrow> (string \<times> error option) \<times> event list" where
  "getLatestBuildID E c tr =
     (let scriptPath = appInfoScriptPath E c;
          (werr, tr1) = WriteFile E scriptPath (appInfoScript (steamAppID c)) tr
      in case werr of
           Some err \<Rightarrow> (([], Some (Errorf (''failed to write app info script: '' @ Error err) (Some err))), tr1)
         | None \<Rightarrow>
             (let ((output, xerr), tr2) = Command E (steamcmdProgram c) [''+runscript'', scriptPath] tr1;
                  res = (case xerr of
                           Some err \<Rightarrow>
                             ([], Some (Errorf (''failed to query app info: '' @ Error err @ '', output: '' @ output) (Some err)))
                         | None \<Rightarrow>
                             (case parseAppInfo (steamAppID c) False (Split output) of
                                Some buildID \<Rightarrow> (buildID, None)
                              | None \<Rightarrow> ([], Some (Errorf ''buildid not found in app_info output'' None))));
                  (rerr, tr3) = Remove E scriptPath tr2
              in (res, tr3)))"

definition CheckUpdate :: "env \<Rightarrow> Client \<Rightarrow> event list \<Rightarrow> (bool \<times> error option) \<times> event list" where
  "CheckUpdate E c tr =
     (let (installed, tr1) = isGameInstalled E c tr
      in if \<not> installed then ((True, None), tr1)
         else (let ((installedBuildID, err), tr2) = getInstalledBuildID E c tr1
               in case err of
                    Some e \<Rightarrow> ((False, Some (Errorf (''failed to get installed build ID: '' @ Error e) (Some e))), tr2)
                  | None \<Rightarrow>
                      if installedBuildID = [] then ((True, None), tr2)
                      else (let ((latestBuildID, err2), tr3) = getLatestBuildID E c tr2
                            in case err2 of
                                 Some e \<Rightarrow> ((False, Some (Errorf (''failed to get latest build ID: '' @ Error e) (Some e))), tr3)
                               | None \<Rightarrow>
                                   if installedBuildID \<noteq> latestBuildID then ((True, None), tr3)
                                   else ((False, None), tr3))))"

definition updateScriptText :: "Client \<Rightarrow> string \<Rightarrow> string" where
  "updateScriptText c validateFlag =
     ''@ShutdownOnFailedCommand 1\<newline>@NoPromptForPassword 1\<newline>force_install_dir ''
       @ gameMountPath c @ ''\<newline>login anonymous\<newline>app_update '' @ steamAppID c @ '' '' @ validateFlag
       @ ''\<newline>quit\<newline>''"

definition createUpdateScript :: "env \<Rightarrow> Client \<Rightarrow> string \<Rightarrow> bool \<Rightarrow> event list \<Rightarrow> error option \<times> event list" where
  "createUpdateScript E c scriptPath validateOnly tr =
     (let validateFlag = (if validateOnly then ''validate'' else []);
          (werr, tr1) = WriteFile E scriptPath (updateScriptText c validateFlag) tr
      in case werr of
           Some err \<Rightarrow> (Some (Errorf (''failed to write script file: '' @ Error err) (Some err)), tr1)
         | None \<Rightarrow> (None, tr1))"

definition validateScriptText :: "Client \<Rightarrow> string" where
  "validateScriptText c =
     ''@ShutdownOnFailedCommand 1\<newline>@NoPromptForPassword 1\<newline>force_install_dir ''
       @ gameMountPath c @ ''\<newline>login anonymous\<newline>app_update '' @ steamAppID c
       @ '' validate\<newline>quit\<newline>''"

definition createValidateScript :: "env \<Rightarrow> Client \<Rightarrow> string \<Rightarrow> event list \<Rightarrow> error option \<times> event list" where
  "createValidateScript E c scriptPath tr =
     (let (werr, tr1) = WriteFile E scriptPath (validateScriptText c) tr
      in case werr of
           Some err \<Rightarrow> (Some (Errorf (''failed to write script file: '' @ Error err) (Some err)), tr1)
         | None \<Rightarrow> (None, tr1))"

definition hasState0x6Error :: "string \<Rightarrow> bool" where
  "hasState0x6Error outputStr =
     (Contains outputStr ''state is 0x6'' \<or>
      Contains outputStr ''state is 0x606'' \<or>
      Contains outputStr ''Error! App'' \<and> Contains outputStr ''0x6'')"

definition steamAppsPath :: "env \<Rightarrow> Client \<Rightarrow> string" where
  "steamAppsPath E c = filepath_Join E [gameMountPath c, ''steamapps'']"

definition clearSteamApps :: "env \<Rightarrow> Client \<Rightarrow> event list \<Rightarrow> error option \<times> event list" where
  "clearSteamApps E c tr =
     (let (rerr, tr1) = RemoveAll E (steamAppsPath E c) tr
      in case rerr of
           Some err \<Rightarrow> (Some (Errorf (''failed to remove steamapps directory: '' @ Error err) (Some err)), tr1)
         | None \<Rightarrow> (None, tr1))"

text \<open>
  \<^verbatim>\<open>runSteamCMD\<close> starts the tool on the script, collects what it writes on both
  streams into one buffer and waits for it: one run of the tool, answered with the
  buffer and the error of the run. The stage only labels log lines.
\<close>

definition runSteamCMD :: "env \<Rightarrow> Client \<Rightarrow> string \<Rightarrow> string \<Rightarrow> event list \<Rightarrow> (string \<times> error option) \<times> event list" where
  "runSteamCMD E c scriptPath stage tr = Command E (steamcmdProgram c) [''+runscript'', scriptPath] tr"

definition updateScriptPath :: "env \<Rightarrow> Client \<Rightarrow> string" where
  "updateScriptPath E c = filepath_Join E [gameMountPath c, updateScript c]"

text \<open>
  In \<^verbatim>\<open>ApplyUpdate\<close>, \<open>Inl\<close> is a \<^verbatim>\<open>return\<close> from inside the recovery branches and
  \<open>Inr\<close> carries the value of \<^verbatim>\<open>output\<close> on to the final test for the success marker.
\<close>

definition ApplyUpdate :: "env \<Rightarrow> Client \<Rightarrow> event list \<Rightarrow> error option \<times> event list" where
  "ApplyUpdate E c tr =
     (let (installed, tr0) = isGameInstalled E c tr;
          scriptPath = updateScriptPath E c;
          (cerr, tr1) = createUpdateScript E c scriptPath False tr0
      in case cerr of
           Some err \<Rightarrow> (Some (Errorf (''failed to create update script: '' @ Error err) (Some err)), tr1)
         | None \<Rightarrow>
             (let ((output, err), tr2) = runSteamCMD E c scriptPath ''update'' tr1;
                  r = (if hasState0x6Error output then
                         (let (clerr, tr3) = clearSteamApps E c tr2
                          in case clerr of
                               Some e \<Rightarrow> Inl (Some (Errorf (''failed to clear steamapps for recovery: '' @ Error e) (Some e)), tr3)
                             | None \<Rightarrow>
                                 (let ((output2, err2), tr4) = runSteamCMD E c scriptPath ''update-retry'' tr3
                                  in case err2 of
                                       Some e \<Rightarrow>
                                         Inl (Some (Errorf (''steamcmd update failed after 0x6 recovery: '' @ Error e
                                                @ '', output: '' @ output2) (Some e)), tr4)
                                     | None \<Rightarrow> Inr (output2, tr4)))
                       else (case err of
                               Some e \<Rightarrow>
                                 Inl (Some (Errorf (''steamcmd update failed: '' @ Error e @ '', output: '' @ output) (Some e)), tr2)
                             | None \<Rightarrow> Inr (output, tr2)))
              in case r of
                   Inl ret \<Rightarrow> ret
                 | Inr (out, trf) \<Rightarrow>
                     if \<not> Contains out ''Success''
                     then (Some (Errorf (''update may have failed, check output: '' @ out) None), trf)
                     else (None, trf)))"

definition validateScriptPath :: "env \<Rightarrow> Client \<Rightarrow> string" where
  "validateScriptPath E c = filepath_Join E [gameMountPath c, ''validate_script.txt'']"

definition ValidateUpdate :: "env \<Rightarrow> Client \<Rightarrow> event list \<Rightarrow> error option \<times> event list" where
  "ValidateUpdate E c tr =
     (let scriptPath = validateScriptPath E c;
          (cerr, tr1) = createValidateScript E c scriptPath tr
      in case cerr of
           Some err \<Rightarrow> (Some (Errorf (''failed to create validate script: '' @ Error err) (Some err)), tr1)
         | None \<Rightarrow>
             (let ((output, err), tr2) = runSteamCMD E c scriptPath ''validate'' tr1
              in case err of
                   Some e \<Rightarrow> (Some (Errorf (''validation failed: '' @ Error e @ '', output: '' @ output) (Some e)), tr2)
                 | None \<Rightarrow>
                     if \<not> Contains output ''Success''
                     then (Some (Errorf (''validation reported issues: '' @ output) None), tr2)
                     else (None, tr2)))"

section \<open>The cluster client (internal/k8s/client.go)\<close>

record K8sClient =
  namespace :: string

definition ReplicaSetsGet :: "env \<Rightarrow> string \<Rightarrow> string \<Rightarrow> event list \<Rightarrow> (error + OwnerReference list) \<times> event list" where
  "ReplicaSetsGet E ns name tr = (let r = replicaSets_Get E tr ns name in (r, tr @ [EvGetReplicaSet ns name r]))"

definition PodsList :: "env \<Rightarrow> string \<Rightarrow> string \<Rightarrow> event list \<Rightarrow> (error + Pod list) \<times> event list" where
  "PodsList E ns selector tr = (let r = pods_List E tr ns selector in (r, tr @ [EvListPods ns selector r]))"

text \<open>
  The four restart methods of the cluster client are taken at their interface: a call
  with the workload's name, answered with \<^verbatim>\<open>nil\<close> or an error.
\<close>

definition Restart :: "env \<Rightarrow> restart_method \<Rightarrow> string \<Rightarrow> string \<Rightarrow> event list \<Rightarrow> error option \<times> event list" where
  "Restart E m ns name tr = (let r = client_Restart E tr m ns name in (r, tr @ [EvRestart m ns name r]))"

definition ListPodsBySelector :: "env \<Rightarrow> K8sClient \<Rightarrow> string \<Rightarrow> event list \<Rightarrow> (Pod list \<times> error option) \<times> event list" where
  "ListPodsBySelector E k selector tr =
     (let (r, tr1) = PodsList E (namespace k) selector tr
      in case r of
           Inl err \<Rightarrow> (([], Some (Errorf (''failed to list pods: '' @ Error err) (Some err))), tr1)
         | Inr items \<Rightarrow> ((items, None), tr1))"

text \<open>
  \<^verbatim>\<open>GetPodOwner\<close> returns kind, name and error. Of the replica set it fetches it reads
  the ownership references only, so these are what the lookup is answered with.
\<close>

definition GetPodOwner :: "env \<Rightarrow> K8sClient \<Rightarrow> Pod \<Rightarrow> event list \<Rightarrow> (string \<times> string \<times> error option) \<times> event list" where
  "GetPodOwner E k pod tr =
     (case OwnerReferences pod of
        [] \<Rightarrow> (([], [], Some (Errorf (''pod '' @ PodName pod @ '' has no owner references'') None)), tr)
      | owner # others \<Rightarrow>
          if Kind owner = ''ReplicaSet'' then
            (let (r, tr1) = ReplicaSetsGet E (namespace k) (Name owner) tr
             in case r of
                  Inl getErr \<Rightarrow> ((Kind owner, Name owner, None), tr1)
                | Inr rsOwners \<Rightarrow>
                    (case rsOwners of
                       rsOwner # rsOthers \<Rightarrow> ((Kind rsOwner, Name rsOwner, None), tr1)
                     | [] \<Rightarrow> ((Kind owner, Name owner, None), tr1)))
          else ((Kind owner, Name owner, None), tr))"

section \<open>The controller (internal/controller)\<close>

text \<open>Go's \<^verbatim>\<open>int\<close> and \<^verbatim>\<open>time.Duration\<close> are 64-bit signed integers on the build's target.\<close>

record Config =
  CheckInterval :: "64 word"
  SteamCMDPath :: string
  SteamApp :: string
  SteamAppID :: string
  GameMountPath :: string
  UpdateScript :: string
  PodSelector :: string
  MaxRetries :: "64 word"
  RetryDelay :: "64 word"
  Namespace :: string

record UpdateController =
  config :: Config
  k8sClient :: K8sClient
  steamClient :: Client
  retryCount :: "64 word"

definition NewUpdateController :: "Config \<Rightarrow> K8sClient \<Rightarrow> Client \<Rightarrow> UpdateController" where
  "NewUpdateController cfg k c = \<lparr>config = cfg, k8sClient = k, steamClient = c, retryCount = 0\<rparr>"

definition restartWorkload :: "env \<Rightarrow> K8sClient \<Rightarrow> string \<Rightarrow> string \<Rightarrow> event list \<Rightarrow> error option \<times> event list" where
  "restartWorkload E k kind name tr =
     (if kind = ''Deployment'' then Restart E RestartDeployment (namespace k) name tr
      else if kind = ''StatefulSet'' then Restart E RestartStatefulSet (namespace k) name tr
      else if kind = ''DaemonSet'' then Restart E RestartDaemonSet (namespace k) name tr
      else if kind = ''ReplicaSet'' then Restart E RestartReplicaSet (namespace k) name tr
      else (Some (Errorf (''unsupported workload kind: '' @ kind) None), tr))"

definition workloadKey :: "string \<Rightarrow> string \<Rightarrow> string" where
  "workloadKey ownerKind ownerName = ownerKind @ ''/'' @ ownerName"

text \<open>
  The loop of \<^verbatim>\<open>restartPods\<close> over the pods, with the map
  \<^verbatim>\<open>workloadsRestarted\<close> as an association list with one entry for each key; a key
  that is absent reads as \<^verbatim>\<open>false\<close>, and the length of the list is the map's.
\<close>

definition lookupKey :: "(string \<times> bool) list \<Rightarrow> string \<Rightarrow> bool" where
  "lookupKey m key = (case map_of m key of None \<Rightarrow> False | Some b \<Rightarrow> b)"

fun restartLoop :: "env \<Rightarrow> K8sClient \<Rightarrow> Pod list \<Rightarrow> (string \<times> bool) list \<Rightarrow> event list \<Rightarrow> (string \<times> bool) list \<times> event list" where
  "restartLoop E k [] workloadsRestarted tr = (workloadsRestarted, tr)"
| "restartLoop E k (pod # pods) workloadsRestarted tr =
     (let ((ownerKind, ownerName, err), tr1) = GetPodOwner E k pod tr
      in case err of
           Some e \<Rightarrow> restartLoop E k pods workloadsRestarted tr1
         | None \<Rightarrow>
             if lookupKey workloadsRestarted (workloadKey ownerKind ownerName)
             then restartLoop E k pods workloadsRestarted tr1
             else (let (rerr, tr2) = restartWorkload E k ownerKind ownerName tr1
                   in case rerr of
                        Some e \<Rightarrow> restartLoop E k pods workloadsRestarted tr2
                      | None \<Rightarrow>
                          restartLoop E k pods
                            (AList.update (workloadKey ownerKind ownerName) True workloadsRestarted) tr2))"

definition restartPods :: "env \<Rightarrow> UpdateController \<Rightarrow> event list \<Rightarrow> error option \<times> event list" where
  "restartPods E uc tr =
     (let ((pods, err), tr1) = ListPodsBySelector E (k8sClient uc) (PodSelector (config uc)) tr
      in case err of
           Some e \<Rightarrow> (Some (Errorf (''failed to list pods: '' @ Error e) (Some e)), tr1)
         | None \<Rightarrow>
             if length pods = 0 then (None, tr1)
             else (let (workloadsRestarted, tr2) = restartLoop E (k8sClient uc) pods [] tr1
                   in if length workloadsRestarted = 0
                      then (Some (Errorf ''failed to restart any workloads'' None), tr2)
                      else (None, tr2)))"

definition handleUpdateFailure :: "UpdateController \<Rightarrow> error \<Rightarrow> event list \<Rightarrow> error \<times> UpdateController \<times> event list" where
  "handleUpdateFailure uc err tr =
     (let uc1 = uc\<lparr>retryCount := retryCount uc + 1\<rparr>
      in if sint (MaxRetries (config uc1)) \<le> sint (retryCount uc1)
         then (Errorf (''update failed after '' @ showInt (sint (MaxRetries (config uc1))) @ '' attempts: '' @ Error err) (Some err),
               uc1\<lparr>retryCount := 0\<rparr>, tr)
         else (err, uc1, Sleep (RetryDelay (config uc1)) tr))"

definition applyUpdate :: "env \<Rightarrow> UpdateController \<Rightarrow> event list \<Rightarrow> error option \<times> UpdateController \<times> event list" where
  "applyUpdate E uc tr =
     (let (aerr, tr1) = ApplyUpdate E (steamClient uc) tr
      in case aerr of
           Some err \<Rightarrow> (let (e, uc', tr') = handleUpdateFailure uc err tr1 in (Some e, uc', tr'))
         | None \<Rightarrow>
             (let (verr, tr2) = ValidateUpdate E (steamClient uc) tr1
              in case verr of
                   Some err \<Rightarrow>
                     (let (e, uc', tr') =
                            handleUpdateFailure uc (Errorf (''update validation failed: '' @ Error err) (Some err)) tr2
                      in (Some e, uc', tr'))
                 | None \<Rightarrow>
                     (let (rerr, tr3) = restartPods E uc tr2
                      in case rerr of
                           Some err \<Rightarrow>
                             (let (e, uc', tr') =
                                    handleUpdateFailure uc (Errorf (''failed to restart pods: '' @ Error err) (Some err)) tr3
                              in (Some e, uc', tr'))
                         | None \<Rightarrow> (None, uc\<lparr>retryCount := 0\<rparr>, tr3))))"

definition performUpdateCheck :: "env \<Rightarrow> UpdateController \<Rightarrow> event list \<Rightarrow> error option \<times> UpdateController \<times> event list" where
  "performUpdateCheck E uc tr =
     (let ((updateAvailable, err), tr1) = CheckUpdate E (steamClient uc) tr
      in case err of
           Some e \<Rightarrow> (Some (Errorf (''failed to check for updates: '' @ Error e) (Some e)), uc, tr1)
         | None \<Rightarrow>
             if \<not> updateAvailable then (None, uc, tr1)
             else applyUpdate E uc tr1)"

section \<open>Concrete environments\<close>

text \<open>A stand-in for \<^verbatim>\<open>filepath.Join\<close> on clean path elements: they are joined by slashes.\<close>

definition joinSlash :: "string list \<Rightarrow> string" where
  "joinSlash parts = foldr (\<lambda>a b. if b = [] then a else a @ ''/'' @ b) parts []"

text \<open>
  An environment where nothing fails: no manifest on disk, the tool reports success, no
  pod matches the selector, and every replica set is owned by the deployment \<open>web\<close>.
\<close>

definition envQuiet :: env where
  "envQuiet = \<lparr>filepath_Join = joinSlash,
     os_Stat = (\<lambda>tr p. None),
     os_ReadFile = (\<lambda>tr p. Inl (ErrNotExist ''no such file or directory'')),
     os_WriteFile = (\<lambda>tr p s. None),
     os_Remove = (\<lambda>tr p. None),
     os_RemoveAll = (\<lambda>tr p. None),
     exec_Command = (\<lambda>tr prog args. (''Success! App fully installed.'', None)),
     pods_List = (\<lambda>tr ns sel. Inr []),
     replicaSets_Get = (\<lambda>tr ns name. Inr [\<lparr>Kind = ''Deployment'', Name = ''web''\<rparr>]),
     client_Restart = (\<lambda>tr m ns name. None)\<rparr>"

text \<open>The configuration \<^verbatim>\<open>LoadConfig\<close> gives when no variable is set, and its controller.\<close>

definition NewClient :: "string \<Rightarrow> string \<Rightarrow> string \<Rightarrow> string \<Rightarrow> string \<Rightarrow> Client" where
  "NewClient cmdPath app appID mountPath script =
     \<lparr>steamCMDPath = cmdPath, steamApp = app, steamAppID = appID, gameMountPath = mountPath, updateScript = script\<rparr>"

definition defaultConfig :: Config where
  "defaultConfig =
     \<lparr>CheckInterval = 1800000000000, SteamCMDPath = ''/home/steam/steamcmd'', SteamApp = ''tf'',
      SteamAppID = ''232250'', GameMountPath = ''/tf'', UpdateScript = ''tf_update.txt'',
      PodSelector = ''app=tf2-server'', MaxRetries = 3, RetryDelay = 300000000000, Namespace = ''default''\<rparr>"

definition defaultClient :: Client where
  "defaultClient = NewClient ''/home/steam/steamcmd'' ''tf'' ''232250'' ''/tf'' ''tf_update.txt''"

definition defaultController :: UpdateController where
  "defaultController = NewUpdateController defaultConfig \<lparr>namespace = ''default''\<rparr> defaultClient"



text \<open>An environment like \<open>envQuiet\<close> where every run of the tool fails.\<close>

definition envToolFails :: env where
  "envToolFails = envQuiet\<lparr>exec_Command := (\<lambda>tr prog args. (''ERROR! Failed to install app'', Some (ErrOther ''exit status 8'')))\<rparr>"

text \<open>The runs of the installer tool in a trace, and how many there are.\<close>

fun isExec :: "event \<Rightarrow> bool" where
  "isExec (EvExec prog args r) = True"
| "isExec ev = False"

definition toolRuns :: "event list \<Rightarrow> nat" where
  "toolRuns tr = length (filter isExec tr)"

fun isRemoveAll :: "event \<Rightarrow> bool" where
  "isRemoveAll (EvRemoveAll p r) = True"
| "isRemoveAll ev = False"

text \<open>
  An environment where the tool reports the corrupted state until the metadata directory
  has been removed and succeeds afterwards, and one where it reports the corrupted state
  and the directory cannot be removed.
\<close>

definition envRecovers :: env where
  "envRecovers = envQuiet\<lparr>exec_Command := (\<lambda>tr prog args.
     if list_ex isRemoveAll tr then (''Success! App fully installed.'', None)
     else (''Error! App 232250 state is 0x6 after update job.'', Some (ErrOther ''exit status 8'')))\<rparr>"

definition envClearFails :: env where
  "envClearFails = envQuiet\<lparr>
     exec_Command := (\<lambda>tr prog args. (''Error! App 232250 state is 0x6 after update job.'', Some (ErrOther ''exit status 8''))),
     os_RemoveAll := (\<lambda>tr p. Some (ErrOther ''permission denied''))\<rparr>"

text \<open>An environment like \<open>envQuiet\<close> where the tool exits with zero without the success marker.\<close>

definition envNoMarker :: env where
  "envNoMarker = envQuiet\<lparr>exec_Command := (\<lambda>tr prog args. (''Update state (0x3) reconfiguring'', None))\<rparr>"

text \<open>
  Environments with the game installed: a manifest that records build 1001, with the
  tool reporting build 1001 or build 1002 for the public branch, and a manifest without
  a build id.
\<close>

definition manifest1001 :: string where
  \<open>manifest1001 = ''"AppState"\<newline>{\<newline>  "appid"    "232250"\<newline>  "buildid"    "1001"\<newline>}\<newline>''\<close>

definition appInfo :: "string \<Rightarrow> string" where
  \<open>appInfo buildID =
     ''AppID : 232250, change number : 1\<newline>"depots"\<newline>{\<newline> "branches"\<newline> {\<newline>  "public"\<newline>  {\<newline>   "buildid"  "''
       @ buildID @ ''"\<newline>  }\<newline> }\<newline>}\<newline>''\<close>

definition envInstalled :: "string \<Rightarrow> env" where
  "envInstalled latest = envQuiet\<lparr>
     os_ReadFile := (\<lambda>tr p. Inr manifest1001),
     exec_Command := (\<lambda>tr prog args. (appInfo latest, None))\<rparr>"

definition envMalformed :: env where
  \<open>envMalformed = envQuiet\<lparr>os_ReadFile := (\<lambda>tr p. Inr ''"AppState"\<newline>{\<newline>}\<newline>'')\<rparr>\<close>

definition envNotInstalled :: env where
  "envNotInstalled = envQuiet\<lparr>os_Stat := (\<lambda>tr p. Some (ErrNotExist ''no such file or directory''))\<rparr>"

text \<open>The events that only look at the file system.\<close>

fun isStat :: "event \<Rightarrow> bool" where
  "isStat (EvStat p r) = True"
| "isStat ev = False"

text \<open>
  What the tool is given to run, read off a trace: \<open>toolScripts fs tr\<close> lists, for each
  run of the tool in \<open>tr\<close>, the content of the script file named by its second argument,
  where \<open>fs\<close> holds the files whose content is known, or \<open>None\<close> when the content is
  not known. A successful write makes a content known; a failed write and every removal
  make contents unknown.
\<close>

fun toolScripts :: "(string \<rightharpoonup> string) \<Rightarrow> event list \<Rightarrow> string option list" where
  "toolScripts fs [] = []"
| "toolScripts fs (EvWriteFile p s None # evs) = toolScripts (fs(p \<mapsto> s)) evs"
| "toolScripts fs (EvWriteFile p s (Some e) # evs) = toolScripts (fs(p := None)) evs"
| "toolScripts fs (EvRemove p r # evs) = toolScripts (fs(p := None)) evs"
| "toolScripts fs (EvRemoveAll p r # evs) = toolScripts Map.empty evs"
| "toolScripts fs (EvExec prog [a, p] r # evs) = fs p # toolScripts fs evs"
| "toolScripts fs (EvExec prog args r # evs) = None # toolScripts fs evs"
| "toolScripts fs (ev # evs) = toolScripts fs evs"

text \<open>
  A script has one directive per line; the directive of a line is its first word, and
  \<open>directives\<close> lists the directives of the lines that have one.
\<close>

definition directiveOf :: "string \<Rightarrow> string" where
  "directiveOf line =
     takeWhile (\<lambda>c. c \<noteq> CHR '' '' \<and> c \<noteq> CHR 0x09) (dropWhile (\<lambda>c. c = CHR '' '' \<or> c = CHR 0x09) line)"

definition directives :: "string \<Rightarrow> string list" where
  "directives script = filter (\<lambda>d. d \<noteq> []) (map directiveOf (Split script))"

text \<open>The events that only look at the file system.\<close>

fun inert :: "event \<Rightarrow> bool" where
  "inert (EvStat p r) = True"
| "inert (EvReadFile p r) = True"
| "inert ev = False"

text \<open>A client whose application id carries a second line.\<close>

definition injectedClient :: Client where
  "injectedClient = defaultClient\<lparr>steamAppID := ''232250\<newline>app_update 232250''\<rparr>"

text \<open>
  The restart dispatches of a trace: for each call of a restart method, the key of the
  workload it is for and whether the call succeeded.
\<close>

fun methodKind :: "restart_method \<Rightarrow> string" where
  "methodKind RestartDeployment = ''Deployment''"
| "methodKind RestartStatefulSet = ''StatefulSet''"
| "methodKind RestartDaemonSet = ''DaemonSet''"
| "methodKind RestartReplicaSet = ''ReplicaSet''"

fun restartKeys :: "event list \<Rightarrow> (string \<times> bool) list" where
  "restartKeys [] = []"
| "restartKeys (EvRestart m ns name r # evs) = (workloadKey (methodKind m) name, r = None) # restartKeys evs"
| "restartKeys (ev # evs) = restartKeys evs"

text \<open>No workload is dispatched again after a dispatch for it has succeeded.\<close>

fun noRedispatch :: "(string \<times> bool) list \<Rightarrow> bool" where
  "noRedispatch [] = True"
| "noRedispatch ((key, ok) # rest) = ((ok \<longrightarrow> key \<notin> fst ` set rest) \<and> noRedispatch rest)"

text \<open>The owner \<^verbatim>\<open>GetPodOwner\<close> resolves a pod to, as a pair of kind and name.\<close>

definition resolvedOwner :: "env \<Rightarrow> K8sClient \<Rightarrow> Pod \<Rightarrow> string \<times> string" where
  "resolvedOwner E k pod = (case fst (GetPodOwner E k pod []) of (kind, name, err) \<Rightarrow> (kind, name))"

definition supportedKinds :: "string set" where
  "supportedKinds = {''Deployment'', ''StatefulSet'', ''DaemonSet'', ''ReplicaSet''}"

text \<open>
  Three pods: two of the replica set \<open>web-abc\<close>, which the deployment \<open>web\<close> owns, and
  one of the stateful set \<open>db\<close>; with every restart succeeding, and with every restart
  failing.
\<close>

definition threePods :: "Pod list" where
  "threePods =
     [\<lparr>PodName = ''web-abc-1'', OwnerReferences = [\<lparr>Kind = ''ReplicaSet'', Name = ''web-abc''\<rparr>]\<rparr>,
      \<lparr>PodName = ''web-abc-2'', OwnerReferences = [\<lparr>Kind = ''ReplicaSet'', Name = ''web-abc''\<rparr>]\<rparr>,
      \<lparr>PodName = ''db-0'', OwnerReferences = [\<lparr>Kind = ''StatefulSet'', Name = ''db''\<rparr>]\<rparr>]"

definition envThreePods :: env where
  "envThreePods = envQuiet\<lparr>pods_List := (\<lambda>tr ns sel. Inr threePods)\<rparr>"

definition envRestartFails :: env where
  "envRestartFails = envThreePods\<lparr>client_Restart := (\<lambda>tr m ns name. Some (ErrOther ''conflict''))\<rparr>"



section \<open>Properties\<close>

subsection \<open>Owner resolution\<close>

text \<open>
  C9. \<^verbatim>\<open>GetPodOwner\<close> flattens exactly one level. A pod without ownership references
  gives an error and no lookup. Otherwise the pod's first reference decides: when its
  kind is not \<^verbatim>\<open>ReplicaSet\<close> it is returned with a nil error and without any lookup;
  when its kind is \<^verbatim>\<open>ReplicaSet\<close> exactly one lookup of that replica set is made, and
  the result is the replica set's own first reference, or the replica set's reference
  itself when the lookup fails or the replica set has no reference, with a nil error in
  every case.
\<close>

theorem GetPodOwner_one_level:
  "(OwnerReferences pod = [] \<longrightarrow>
      (\<exists>e. GetPodOwner E k pod tr = (([], [], Some e), tr)))
   \<and> (\<forall>owner others. OwnerReferences pod = owner # others \<longrightarrow>
        (Kind owner \<noteq> ''ReplicaSet'' \<longrightarrow>
           GetPodOwner E k pod tr = ((Kind owner, Name owner, None), tr))
      \<and> (Kind owner = ''ReplicaSet'' \<longrightarrow>
           (\<exists>r. r = replicaSets_Get E tr (namespace k) (Name owner)
              \<and> snd (GetPodOwner E k pod tr) = tr @ [EvGetReplicaSet (namespace k) (Name owner) r]
              \<and> fst (GetPodOwner E k pod tr) =
                  (case r of
                     Inl getErr \<Rightarrow> (Kind owner, Name owner, None)
                   | Inr [] \<Rightarrow> (Kind owner, Name owner, None)
                   | Inr (rsOwner # rsOthers) \<Rightarrow> (Kind rsOwner, Name rsOwner, None)))))"
  by (auto simp: GetPodOwner_def ReplicaSetsGet_def Let_def split: sum.splits list.splits)

theorem GetPodOwner_one_level_witness:
  "GetPodOwner envQuiet \<lparr>namespace = ''default''\<rparr>
     \<lparr>PodName = ''web-abc-1'', OwnerReferences = [\<lparr>Kind = ''ReplicaSet'', Name = ''web-abc''\<rparr>]\<rparr> []
   = ((''Deployment'', ''web'', None),
      [EvGetReplicaSet ''default'' ''web-abc'' (Inr [\<lparr>Kind = ''Deployment'', Name = ''web''\<rparr>])])
   \<and> (\<exists>e. GetPodOwner envQuiet \<lparr>namespace = ''default''\<rparr> \<lparr>PodName = ''lonely'', OwnerReferences = []\<rparr> []
          = (([], [], Some e), []))"
  using GetPodOwner_one_level [of "\<lparr>PodName = ''web-abc-1'', OwnerReferences = [\<lparr>Kind = ''ReplicaSet'', Name = ''web-abc''\<rparr>]\<rparr>"
          envQuiet "\<lparr>namespace = ''default''\<rparr>" "[]"]
        GetPodOwner_one_level [of "\<lparr>PodName = ''lonely'', OwnerReferences = []\<rparr>" envQuiet "\<lparr>namespace = ''default''\<rparr>" "[]"]
  by (auto simp: envQuiet_def prod_eq_iff)

subsection \<open>A cycle that finds no pod\<close>

text \<open>
  C10. When the selector matches no pod, \<^verbatim>\<open>restartPods\<close> returns nil after the list
  call alone: the loop is not entered, so the test for an empty map of restarted
  workloads (which the empty loop would leave empty) is not reached. A cycle whose apply
  and validate stages succeeded then ends as a full success: \<^verbatim>\<open>applyUpdate\<close> returns
  nil and sets the retry counter to zero, with no restart call in the trace.
\<close>

theorem restartPods_no_pods:
  assumes "ApplyUpdate E (steamClient uc) tr = (None, tr1)"
    and "ValidateUpdate E (steamClient uc) tr1 = (None, tr2)"
    and "pods_List E tr2 (namespace (k8sClient uc)) (PodSelector (config uc)) = Inr []"
  shows "restartPods E uc tr2 =
           (None, tr2 @ [EvListPods (namespace (k8sClient uc)) (PodSelector (config uc)) (Inr [])])
       \<and> applyUpdate E uc tr =
           (None, uc\<lparr>retryCount := 0\<rparr>,
            tr2 @ [EvListPods (namespace (k8sClient uc)) (PodSelector (config uc)) (Inr [])])
       \<and> fst (restartLoop E (k8sClient uc) [] [] tr2) = []"
proof -
  have r: "restartPods E uc tr2 =
      (None, tr2 @ [EvListPods (namespace (k8sClient uc)) (PodSelector (config uc)) (Inr [])])"
    using assms(3) by (simp add: restartPods_def ListPodsBySelector_def PodsList_def Let_def)
  have a: "applyUpdate E uc tr =
      (None, uc\<lparr>retryCount := 0\<rparr>,
       tr2 @ [EvListPods (namespace (k8sClient uc)) (PodSelector (config uc)) (Inr [])])"
    using assms(1,2) r by (simp add: applyUpdate_def)
  from r a show ?thesis by simp
qed

lemma ApplyUpdate_envQuiet:
  "ApplyUpdate envQuiet defaultClient [] =
     (None, [EvStat ''/tf/tf'' None, EvStat ''/tf/tf/srcds_run'' None,
             EvWriteFile ''/tf/tf_update.txt'' (updateScriptText defaultClient []) None,
             EvExec ''/home/steam/steamcmd/steamcmd.sh'' [''+runscript'', ''/tf/tf_update.txt'']
               (''Success! App fully installed.'', None)])"
  by (simp add: ApplyUpdate_def isGameInstalled_def Stat_def createUpdateScript_def WriteFile_def
      runSteamCMD_def Command_def updateScriptPath_def steamcmdProgram_def hasState0x6Error_def
      envQuiet_def defaultClient_def NewClient_def joinSlash_def Let_def)

lemma ValidateUpdate_envQuiet:
  "ValidateUpdate envQuiet defaultClient tr =
     (None, tr @ [EvWriteFile ''/tf/validate_script.txt'' (validateScriptText defaultClient) None,
             EvExec ''/home/steam/steamcmd/steamcmd.sh'' [''+runscript'', ''/tf/validate_script.txt'']
               (''Success! App fully installed.'', None)])"
  by (simp add: ValidateUpdate_def createValidateScript_def WriteFile_def
      runSteamCMD_def Command_def validateScriptPath_def steamcmdProgram_def
      envQuiet_def defaultClient_def NewClient_def joinSlash_def Let_def)

theorem restartPods_no_pods_witness:
  "fst (applyUpdate envQuiet (defaultController\<lparr>retryCount := 2\<rparr>) []) = None
   \<and> retryCount (fst (snd (applyUpdate envQuiet (defaultController\<lparr>retryCount := 2\<rparr>) []))) = 0
   \<and> last (snd (snd (applyUpdate envQuiet (defaultController\<lparr>retryCount := 2\<rparr>) [])))
        = EvListPods ''default'' ''app=tf2-server'' (Inr [])"
proof -
  have c: "steamClient (defaultController\<lparr>retryCount := 2\<rparr>) = defaultClient"
    by (simp add: defaultController_def NewUpdateController_def)
  have l: "pods_List envQuiet tr (namespace (k8sClient (defaultController\<lparr>retryCount := 2\<rparr>)))
             (PodSelector (config (defaultController\<lparr>retryCount := 2\<rparr>))) = Inr []" for tr
    by (simp add: envQuiet_def)
  show ?thesis
    using restartPods_no_pods [of envQuiet "defaultController\<lparr>retryCount := 2\<rparr>" "[]", unfolded c,
        OF ApplyUpdate_envQuiet ValidateUpdate_envQuiet l [unfolded c]]
    by (simp add: defaultController_def NewUpdateController_def defaultConfig_def)
qed

subsection \<open>The retry counter\<close>














text \<open>
  The check stage is not one of these stages: an error of \<^verbatim>\<open>CheckUpdate\<close> is returned
  by \<^verbatim>\<open>performUpdateCheck\<close> with the controller, and so its counter, as it was.
\<close>

lemma performUpdateCheck_check_error:
  assumes "CheckUpdate E (steamClient uc) tr = ((b, Some e), t)"
  shows "performUpdateCheck E uc tr =
           (Some (Errorf (''failed to check for updates: '' @ Error e) (Some e)), uc, t)"
  using assms by (simp add: performUpdateCheck_def)

subsection \<open>Applying and validating an update\<close>

lemma isGameInstalled_trace:
  "\<exists>sts. snd (isGameInstalled E c tr) = tr @ sts \<and> toolRuns sts = 0 \<and> \<not> list_ex isRemoveAll sts"
  by (auto simp: isGameInstalled_def Stat_def toolRuns_def Let_def split: prod.splits)

lemma createUpdateScript_ok:
  assumes "createUpdateScript E c p v tr0 = (None, tr1)"
  shows "tr1 = tr0 @ [EvWriteFile p (updateScriptText c (if v then ''validate'' else [])) None]"
  using assms by (auto simp: createUpdateScript_def WriteFile_def Let_def split: option.splits)

lemma runSteamCMD_trace:
  assumes "runSteamCMD E c p stage tr1 = ((out, err), tr2)"
  shows "tr2 = tr1 @ [EvExec (steamcmdProgram c) [''+runscript'', p] (out, err)]"
  using assms by (auto simp: runSteamCMD_def Command_def Let_def)

text \<open>
  C5, as the code has it. When the script has been written and the output of the first
  run matches the corruption signature, the metadata directory under the installation
  root is removed once, right after the first run. If the removal fails, the call
  returns its error and the tool is not run again. If it succeeds, the same script is
  run exactly once more and nothing follows: when that run fails the call returns an
  error whose message ends with the run's output; when it exits with zero the call
  succeeds or fails on the success marker of the second output.
\<close>

theorem ApplyUpdate_one_recovery:
  assumes created: "createUpdateScript E c (updateScriptPath E c) False (snd (isGameInstalled E c tr)) = (None, tr1)"
    and run1: "runSteamCMD E c (updateScriptPath E c) ''update'' tr1 = ((out1, err1), tr2)"
    and sig: "hasState0x6Error out1"
  shows "(\<forall>e. os_RemoveAll E tr2 (steamAppsPath E c) = Some e \<longrightarrow>
            ApplyUpdate E c tr =
              (Some (Errorf (''failed to clear steamapps for recovery: failed to remove steamapps directory: '' @ Error e)
                       (Some (Errorf (''failed to remove steamapps directory: '' @ Error e) (Some e)))),
               tr2 @ [EvRemoveAll (steamAppsPath E c) (Some e)]))
       \<and> (os_RemoveAll E tr2 (steamAppsPath E c) = None \<longrightarrow>
            (\<exists>out2 err2.
               snd (ApplyUpdate E c tr) =
                 tr2 @ [EvRemoveAll (steamAppsPath E c) None,
                        EvExec (steamcmdProgram c) [''+runscript'', updateScriptPath E c] (out2, err2)]
             \<and> (\<forall>e. err2 = Some e \<longrightarrow>
                    fst (ApplyUpdate E c tr) =
                      Some (Errorf (''steamcmd update failed after 0x6 recovery: '' @ Error e @ '', output: '' @ out2) (Some e)))
             \<and> (err2 = None \<longrightarrow>
                    fst (ApplyUpdate E c tr) =
                      (if Contains out2 ''Success'' then None
                       else Some (Errorf (''update may have failed, check output: '' @ out2) None)))))
       \<and> tr2 = tr1 @ [EvExec (steamcmdProgram c) [''+runscript'', updateScriptPath E c] (out1, err1)]
       \<and> toolRuns (snd (ApplyUpdate E c tr)) =
            toolRuns tr + (if os_RemoveAll E tr2 (steamAppsPath E c) = None then 2 else 1)
       \<and> length (filter isRemoveAll (snd (ApplyUpdate E c tr))) = length (filter isRemoveAll tr) + 1"
proof -
  let ?p = "updateScriptPath E c"
  let ?args = "[''+runscript'', ?p]"
  let ?d = "os_RemoveAll E tr2 (steamAppsPath E c)"
  let ?tr3 = "tr2 @ [EvRemoveAll (steamAppsPath E c) ?d]"
  obtain inst tr0 where i: "isGameInstalled E c tr = (inst, tr0)" by (cases "isGameInstalled E c tr") auto
  from created i have cr: "createUpdateScript E c ?p False tr0 = (None, tr1)" by simp
  from isGameInstalled_trace [of E c tr] i obtain sts where
    sts: "tr0 = tr @ sts" "toolRuns sts = 0" "\<not> list_ex isRemoveAll sts" by auto
  have f: "filter isRemoveAll sts = []" using sts(3) by (simp add: list_ex_iff filter_empty_conv)
  have t1: "tr1 = tr0 @ [EvWriteFile ?p (updateScriptText c []) None]"
    using cr by (rule createUpdateScript_ok [of E c ?p False, simplified])
  have t2: "tr2 = tr1 @ [EvExec (steamcmdProgram c) ?args (out1, err1)]"
    using run1 by (rule runSteamCMD_trace)
  have n2: "toolRuns tr2 = toolRuns tr + 1"
    by (simp add: t2 t1 sts(1)) (use sts(2) in \<open>simp add: toolRuns_def\<close>)
  have r2: "length (filter isRemoveAll tr2) = length (filter isRemoveAll tr)"
    by (simp add: t2 t1 sts(1) f)
  have cl: "clearSteamApps E c tr2 =
      (case ?d of Some e \<Rightarrow> Some (Errorf (''failed to remove steamapps directory: '' @ Error e) (Some e))
                | None \<Rightarrow> None, ?tr3)"
    by (simp add: clearSteamApps_def RemoveAll_def Let_def split: option.splits)
  show ?thesis
  proof (cases ?d)
    case (Some e)
    have "ApplyUpdate E c tr =
              (Some (Errorf (''failed to clear steamapps for recovery: failed to remove steamapps directory: '' @ Error e)
                       (Some (Errorf (''failed to remove steamapps directory: '' @ Error e) (Some e)))),
               tr2 @ [EvRemoveAll (steamAppsPath E c) (Some e)])"
      by (simp add: ApplyUpdate_def i cr run1 sig cl Some)
    then show ?thesis using Some t2 n2 r2 by (simp add: toolRuns_def)
  next
    case None
    obtain out2 err2 where x2: "exec_Command E ?tr3 (steamcmdProgram c) ?args = (out2, err2)"
      by (cases "exec_Command E ?tr3 (steamcmdProgram c) ?args") auto
    have rr: "runSteamCMD E c ?p ''update-retry'' ?tr3 =
                ((out2, err2), ?tr3 @ [EvExec (steamcmdProgram c) ?args (out2, err2)])"
      by (simp add: runSteamCMD_def Command_def x2 Let_def)
    have a: "ApplyUpdate E c tr =
        (case err2 of
           Some e \<Rightarrow> Some (Errorf (''steamcmd update failed after 0x6 recovery: '' @ Error e @ '', output: '' @ out2) (Some e))
         | None \<Rightarrow> if Contains out2 ''Success'' then None
                   else Some (Errorf (''update may have failed, check output: '' @ out2) None),
         tr2 @ [EvRemoveAll (steamAppsPath E c) None,
                EvExec (steamcmdProgram c) ?args (out2, err2)])"
      using None rr by (simp add: ApplyUpdate_def i cr run1 sig cl split: option.splits)
    have "\<exists>out2 err2.
               snd (ApplyUpdate E c tr) =
                 tr2 @ [EvRemoveAll (steamAppsPath E c) None,
                        EvExec (steamcmdProgram c) ?args (out2, err2)]
             \<and> (\<forall>e. err2 = Some e \<longrightarrow>
                    fst (ApplyUpdate E c tr) =
                      Some (Errorf (''steamcmd update failed after 0x6 recovery: '' @ Error e @ '', output: '' @ out2) (Some e)))
             \<and> (err2 = None \<longrightarrow>
                    fst (ApplyUpdate E c tr) =
                      (if Contains out2 ''Success'' then None
                       else Some (Errorf (''update may have failed, check output: '' @ out2) None)))"
      by (rule exI [of _ out2], rule exI [of _ err2]) (simp add: a)
    moreover have "toolRuns (snd (ApplyUpdate E c tr)) = toolRuns tr + 2"
      using n2 by (simp add: a toolRuns_def)
    moreover have "length (filter isRemoveAll (snd (ApplyUpdate E c tr))) = length (filter isRemoveAll tr) + 1"
      using r2 by (simp add: a)
    ultimately show ?thesis using None t2 by simp
  qed
qed

theorem ApplyUpdate_one_recovery_witness:
  "ApplyUpdate envRecovers defaultClient [] =
     (None,
      [EvStat ''/tf/tf'' None, EvStat ''/tf/tf/srcds_run'' None,
       EvWriteFile ''/tf/tf_update.txt'' (updateScriptText defaultClient []) None,
       EvExec ''/home/steam/steamcmd/steamcmd.sh'' [''+runscript'', ''/tf/tf_update.txt'']
         (''Error! App 232250 state is 0x6 after update job.'', Some (ErrOther ''exit status 8'')),
       EvRemoveAll ''/tf/steamapps'' None,
       EvExec ''/home/steam/steamcmd/steamcmd.sh'' [''+runscript'', ''/tf/tf_update.txt'']
         (''Success! App fully installed.'', None)])
   \<and> toolRuns (snd (ApplyUpdate envRecovers defaultClient [])) = 2"
proof -
  let ?tr0 = "[EvStat ''/tf/tf'' None, EvStat ''/tf/tf/srcds_run'' None]"
  let ?tr1 = "?tr0 @ [EvWriteFile ''/tf/tf_update.txt'' (updateScriptText defaultClient []) None]"
  let ?out1 = "''Error! App 232250 state is 0x6 after update job.''"
  let ?tr2 = "?tr1 @ [EvExec ''/home/steam/steamcmd/steamcmd.sh'' [''+runscript'', ''/tf/tf_update.txt'']
         (?out1, Some (ErrOther ''exit status 8''))]"
  have g: "snd (isGameInstalled envRecovers defaultClient []) = ?tr0"
    by (simp add: isGameInstalled_def Stat_def envRecovers_def envQuiet_def defaultClient_def
        NewClient_def joinSlash_def Let_def)
  have p: "updateScriptPath envRecovers defaultClient = ''/tf/tf_update.txt''"
    by (simp add: updateScriptPath_def envRecovers_def envQuiet_def defaultClient_def NewClient_def joinSlash_def)
  have cr: "createUpdateScript envRecovers defaultClient (updateScriptPath envRecovers defaultClient) False
              (snd (isGameInstalled envRecovers defaultClient [])) = (None, ?tr1)"
    unfolding g p by (simp add: createUpdateScript_def WriteFile_def envRecovers_def envQuiet_def Let_def)
  have r1: "runSteamCMD envRecovers defaultClient (updateScriptPath envRecovers defaultClient) ''update'' ?tr1
              = ((?out1, Some (ErrOther ''exit status 8'')), ?tr2)"
    unfolding p by (simp add: runSteamCMD_def Command_def steamcmdProgram_def envRecovers_def envQuiet_def
        defaultClient_def NewClient_def Let_def)
  have sg: "hasState0x6Error ?out1" by (simp add: hasState0x6Error_def)
  have rm: "os_RemoveAll envRecovers ?tr2 (steamAppsPath envRecovers defaultClient) = None"
    by (simp add: envRecovers_def envQuiet_def)
  have x2: "exec_Command envRecovers (?tr2 @ [EvRemoveAll (steamAppsPath envRecovers defaultClient) None]) prog args
              = (''Success! App fully installed.'', None)" for prog args
    by (simp add: envRecovers_def envQuiet_def)
  have sp: "steamAppsPath envRecovers defaultClient = ''/tf/steamapps''"
    by (simp add: steamAppsPath_def envRecovers_def envQuiet_def defaultClient_def NewClient_def joinSlash_def)
  have pr: "steamcmdProgram defaultClient = ''/home/steam/steamcmd/steamcmd.sh''"
    by (simp add: steamcmdProgram_def defaultClient_def NewClient_def)
  note t = ApplyUpdate_one_recovery [OF cr r1 sg]
  from t rm obtain out2 err2 where
    s: "snd (ApplyUpdate envRecovers defaultClient []) =
          ?tr2 @ [EvRemoveAll (steamAppsPath envRecovers defaultClient) None,
                  EvExec (steamcmdProgram defaultClient) [''+runscript'', updateScriptPath envRecovers defaultClient] (out2, err2)]"
    and ok: "err2 = None \<longrightarrow> fst (ApplyUpdate envRecovers defaultClient []) =
                      (if Contains out2 ''Success'' then None
                       else Some (Errorf (''update may have failed, check output: '' @ out2) None))"
    and n: "toolRuns (snd (ApplyUpdate envRecovers defaultClient [])) = toolRuns [] + 2"
    by auto
  have e: "(out2, err2) = (''Success! App fully installed.'', None)"
  proof -
    have "snd (ApplyUpdate envRecovers defaultClient []) =
            ?tr2 @ [EvRemoveAll ''/tf/steamapps'' None,
                    EvExec ''/home/steam/steamcmd/steamcmd.sh'' [''+runscript'', ''/tf/tf_update.txt'']
                      (''Success! App fully installed.'', None)]"
      by (simp add: ApplyUpdate_def isGameInstalled_def Stat_def createUpdateScript_def WriteFile_def
          clearSteamApps_def RemoveAll_def steamAppsPath_def
          runSteamCMD_def Command_def updateScriptPath_def steamcmdProgram_def hasState0x6Error_def
          envRecovers_def envQuiet_def defaultClient_def NewClient_def joinSlash_def Let_def)
    with s show ?thesis by (simp add: sp pr p)
  qed
  from e ok have "fst (ApplyUpdate envRecovers defaultClient []) = None" by simp
  with s e n show ?thesis by (simp add: sp pr p prod_eq_iff toolRuns_def)
qed

text \<open>
  C5 as stated fails when the metadata directory cannot be removed: the signature is in
  the first output, one removal is attempted, and the apply script is not run again.
\<close>

theorem ApplyUpdate_recovery_counterexample:
  "hasState0x6Error ''Error! App 232250 state is 0x6 after update job.''
   \<and> ApplyUpdate envClearFails defaultClient [] =
     (Some (Errorf ''failed to clear steamapps for recovery: failed to remove steamapps directory: permission denied''
              (Some (Errorf ''failed to remove steamapps directory: permission denied''
                 (Some (ErrOther ''permission denied''))))),
      [EvStat ''/tf/tf'' None, EvStat ''/tf/tf/srcds_run'' None,
       EvWriteFile ''/tf/tf_update.txt'' (updateScriptText defaultClient []) None,
       EvExec ''/home/steam/steamcmd/steamcmd.sh'' [''+runscript'', ''/tf/tf_update.txt'']
         (''Error! App 232250 state is 0x6 after update job.'', Some (ErrOther ''exit status 8'')),
       EvRemoveAll ''/tf/steamapps'' (Some (ErrOther ''permission denied''))])
   \<and> toolRuns (snd (ApplyUpdate envClearFails defaultClient [])) = 1"
  by (simp add: ApplyUpdate_def isGameInstalled_def Stat_def createUpdateScript_def WriteFile_def
      clearSteamApps_def RemoveAll_def steamAppsPath_def toolRuns_def
      runSteamCMD_def Command_def updateScriptPath_def steamcmdProgram_def hasState0x6Error_def
      envClearFails_def envQuiet_def defaultClient_def NewClient_def joinSlash_def Let_def)

lemma ApplyUpdate_success_last_run:
  assumes "ApplyUpdate E c tr = (None, tr')"
  shows "\<exists>pre out. tr' = pre @ [EvExec (steamcmdProgram c) [''+runscript'', updateScriptPath E c] (out, None)]
           \<and> Contains out ''Success''"
proof -
  let ?p = "updateScriptPath E c"
  obtain inst tr0 where i: "isGameInstalled E c tr = (inst, tr0)" by (cases "isGameInstalled E c tr") auto
  obtain cerr tr1 where cr: "createUpdateScript E c ?p False tr0 = (cerr, tr1)"
    by (cases "createUpdateScript E c ?p False tr0") auto
  from assms i cr have cn: "cerr = None" by (auto simp: ApplyUpdate_def Let_def split: option.splits if_splits)
  obtain out1 err1 tr2 where r1: "runSteamCMD E c ?p ''update'' tr1 = ((out1, err1), tr2)"
    by (cases "runSteamCMD E c ?p ''update'' tr1") auto
  note t2 = runSteamCMD_trace [OF r1]
  show ?thesis
  proof (cases "hasState0x6Error out1")
    case False
    with assms i cr cn r1 have "err1 = None \<and> Contains out1 ''Success'' \<and> tr' = tr2"
      by (auto simp: ApplyUpdate_def Let_def split: option.splits if_splits)
    with t2 show ?thesis by blast
  next
    case True
    obtain clerr tr3 where cl: "clearSteamApps E c tr2 = (clerr, tr3)" by (cases "clearSteamApps E c tr2") auto
    from assms i cr cn r1 True cl have cln: "clerr = None"
      by (auto simp: ApplyUpdate_def Let_def split: option.splits if_splits)
    obtain out2 err2 tr4 where r2: "runSteamCMD E c ?p ''update-retry'' tr3 = ((out2, err2), tr4)"
      by (cases "runSteamCMD E c ?p ''update-retry'' tr3") auto
    note t4 = runSteamCMD_trace [OF r2]
    from assms i cr cn r1 True cl cln r2 have "err2 = None \<and> Contains out2 ''Success'' \<and> tr' = tr4"
      by (auto simp: ApplyUpdate_def Let_def split: option.splits if_splits)
    with t4 show ?thesis by blast
  qed
qed

text \<open>
  C6, as the code has it. The exit code alone is never taken for success.
  \<^verbatim>\<open>ApplyUpdate\<close> returns nil only when its last run of the tool exited with zero and
  the output of that run contains the success marker. \<^verbatim>\<open>ValidateUpdate\<close> returns nil
  exactly when the script was written, the tool exited with zero and its output contains
  the marker; with a zero exit and no marker the error is ``validation reported
  issues'' with the output, with a non-zero exit it is ``validation failed'' with the
  run's error and the output, and when the script cannot be written it is ``failed to
  create validate script''.
\<close>

theorem exit_code_not_trusted:
  "(\<forall>tr'. ApplyUpdate E c tr = (None, tr') \<longrightarrow>
      (\<exists>pre out. tr' = pre @ [EvExec (steamcmdProgram c) [''+runscript'', updateScriptPath E c] (out, None)]
         \<and> Contains out ''Success''))
   \<and> (let p = validateScriptPath E c;
            w = os_WriteFile E tr p (validateScriptText c);
            (out, err) = exec_Command E (tr @ [EvWriteFile p (validateScriptText c) w]) (steamcmdProgram c) [''+runscript'', p]
        in (fst (ValidateUpdate E c tr) = None \<longleftrightarrow> w = None \<and> err = None \<and> Contains out ''Success'')
         \<and> (w = None \<and> err = None \<and> \<not> Contains out ''Success'' \<longrightarrow>
               fst (ValidateUpdate E c tr) = Some (Errorf (''validation reported issues: '' @ out) None))
         \<and> (\<forall>e. w = None \<and> err = Some e \<longrightarrow>
               fst (ValidateUpdate E c tr) =
                 Some (Errorf (''validation failed: '' @ Error e @ '', output: '' @ out) (Some e)))
         \<and> (\<forall>e. w = Some e \<longrightarrow>
               fst (ValidateUpdate E c tr) =
                 Some (Errorf (''failed to create validate script: failed to write script file: '' @ Error e)
                         (Some (Errorf (''failed to write script file: '' @ Error e) (Some e))))))"
proof -
  have a: "\<forall>tr'. ApplyUpdate E c tr = (None, tr') \<longrightarrow>
      (\<exists>pre out. tr' = pre @ [EvExec (steamcmdProgram c) [''+runscript'', updateScriptPath E c] (out, None)]
         \<and> Contains out ''Success'')"
    using ApplyUpdate_success_last_run by blast
  have v: "let p = validateScriptPath E c;
            w = os_WriteFile E tr p (validateScriptText c);
            (out, err) = exec_Command E (tr @ [EvWriteFile p (validateScriptText c) w]) (steamcmdProgram c) [''+runscript'', p]
        in (fst (ValidateUpdate E c tr) = None \<longleftrightarrow> w = None \<and> err = None \<and> Contains out ''Success'')
         \<and> (w = None \<and> err = None \<and> \<not> Contains out ''Success'' \<longrightarrow>
               fst (ValidateUpdate E c tr) = Some (Errorf (''validation reported issues: '' @ out) None))
         \<and> (\<forall>e. w = None \<and> err = Some e \<longrightarrow>
               fst (ValidateUpdate E c tr) =
                 Some (Errorf (''validation failed: '' @ Error e @ '', output: '' @ out) (Some e)))
         \<and> (\<forall>e. w = Some e \<longrightarrow>
               fst (ValidateUpdate E c tr) =
                 Some (Errorf (''failed to create validate script: failed to write script file: '' @ Error e)
                         (Some (Errorf (''failed to write script file: '' @ Error e) (Some e)))))"
    by (auto simp: ValidateUpdate_def createValidateScript_def WriteFile_def runSteamCMD_def Command_def Let_def
        split: prod.splits option.splits)
  from a v show ?thesis by blast
qed

lemma ValidateUpdate_envNoMarker:
  "ValidateUpdate envNoMarker defaultClient [] =
     (Some (Errorf ''validation reported issues: Update state (0x3) reconfiguring'' None),
      [EvWriteFile ''/tf/validate_script.txt'' (validateScriptText defaultClient) None,
       EvExec ''/home/steam/steamcmd/steamcmd.sh'' [''+runscript'', ''/tf/validate_script.txt'']
               (''Update state (0x3) reconfiguring'', None)])"
  by (simp add: ValidateUpdate_def createValidateScript_def WriteFile_def
      runSteamCMD_def Command_def validateScriptPath_def steamcmdProgram_def
      envNoMarker_def envQuiet_def defaultClient_def NewClient_def joinSlash_def Let_def)

theorem exit_code_not_trusted_witness:
  "fst (ValidateUpdate envQuiet defaultClient []) = None
   \<and> fst (ValidateUpdate envNoMarker defaultClient []) =
       Some (Errorf ''validation reported issues: Update state (0x3) reconfiguring'' None)
   \<and> (\<exists>pre out. snd (ApplyUpdate envQuiet defaultClient []) =
         pre @ [EvExec (steamcmdProgram defaultClient) [''+runscript'', updateScriptPath envQuiet defaultClient] (out, None)]
         \<and> Contains out ''Success'')"
proof -
  note t = exit_code_not_trusted [of envQuiet defaultClient "[]"]
  note n = exit_code_not_trusted [of envNoMarker defaultClient "[]"]
  have a: "ApplyUpdate envQuiet defaultClient [] = (None, snd (ApplyUpdate envQuiet defaultClient []))"
    by (simp add: ApplyUpdate_envQuiet)
  from t a have 3: "\<exists>pre out. snd (ApplyUpdate envQuiet defaultClient []) =
         pre @ [EvExec (steamcmdProgram defaultClient) [''+runscript'', updateScriptPath envQuiet defaultClient] (out, None)]
         \<and> Contains out ''Success''" by blast
  have 1: "fst (ValidateUpdate envQuiet defaultClient []) = None"
    using t [THEN conjunct2]
    by (simp add: Let_def envQuiet_def split: prod.splits)
  have 2: "fst (ValidateUpdate envNoMarker defaultClient []) =
       Some (Errorf ''validation reported issues: Update state (0x3) reconfiguring'' None)"
    using n [THEN conjunct2]
    by (simp add: Let_def envNoMarker_def envQuiet_def split: prod.splits)
  from 1 2 3 show ?thesis by blast
qed

text \<open>
  C6 as stated fails on a non-zero exit: the error of \<^verbatim>\<open>ValidateUpdate\<close> is then
  ``validation failed'', not ``validation reported issues''.
\<close>

theorem ValidateUpdate_error_counterexample:
  "fst (ValidateUpdate envToolFails defaultClient []) =
     Some (Errorf ''validation failed: exit status 8, output: ERROR! Failed to install app''
             (Some (ErrOther ''exit status 8'')))
   \<and> \<not> Contains ''validation failed: exit status 8, output: ERROR! Failed to install app''
         ''validation reported issues''"
  by (simp add: ValidateUpdate_def createValidateScript_def WriteFile_def
      runSteamCMD_def Command_def validateScriptPath_def steamcmdProgram_def
      envToolFails_def envQuiet_def defaultClient_def NewClient_def joinSlash_def Let_def)

subsection \<open>Checking for an update\<close>

lemma isGameInstalled_stats:
  "\<exists>sts. snd (isGameInstalled E c tr) = tr @ sts \<and> list_all isStat sts"
  by (auto simp: isGameInstalled_def Stat_def Let_def split: prod.splits)

text \<open>
  C2, as the code has it. \<^verbatim>\<open>CheckUpdate\<close> decides in this order. If the game is not
  installed it returns (true, nil) after the \<^verbatim>\<open>Stat\<close> calls alone, without reading a
  manifest. Else, if reading the installed build id fails, it returns false with that
  error wrapped. Else, if the installed build id is empty, it returns (true, nil). Else,
  if the query for the latest build id fails, it returns false with that error wrapped.
  Otherwise it returns (true, nil) when the two build ids differ and (false, nil) when
  they are equal.
\<close>

theorem CheckUpdate_decision:
  "(let (installed, tr1) = isGameInstalled E c tr;
        ((localID, lerr), tr2) = getInstalledBuildID E c tr1;
        ((remoteID, rerr), tr3) = getLatestBuildID E c tr2
    in (\<not> installed \<longrightarrow>
          CheckUpdate E c tr = ((True, None), tr1) \<and> (\<exists>sts. tr1 = tr @ sts \<and> list_all isStat sts))
     \<and> (installed \<longrightarrow>
          (\<forall>e. lerr = Some e \<longrightarrow>
             CheckUpdate E c tr =
               ((False, Some (Errorf (''failed to get installed build ID: '' @ Error e) (Some e))), tr2))
        \<and> (lerr = None \<and> localID = [] \<longrightarrow> CheckUpdate E c tr = ((True, None), tr2))
        \<and> (lerr = None \<and> localID \<noteq> [] \<longrightarrow>
             (\<forall>e. rerr = Some e \<longrightarrow>
                CheckUpdate E c tr =
                  ((False, Some (Errorf (''failed to get latest build ID: '' @ Error e) (Some e))), tr3))
           \<and> (rerr = None \<longrightarrow> CheckUpdate E c tr = ((localID \<noteq> remoteID, None), tr3)))))"
proof -
  obtain installed tr1 where i: "isGameInstalled E c tr = (installed, tr1)"
    by (cases "isGameInstalled E c tr") auto
  obtain localID lerr tr2 where l: "getInstalledBuildID E c tr1 = ((localID, lerr), tr2)"
    by (cases "getInstalledBuildID E c tr1") auto
  obtain remoteID rerr tr3 where r: "getLatestBuildID E c tr2 = ((remoteID, rerr), tr3)"
    by (cases "getLatestBuildID E c tr2") auto
  from isGameInstalled_stats [of E c tr] i have s: "\<exists>sts. tr1 = tr @ sts \<and> list_all isStat sts" by simp
  show ?thesis
    using s by (auto simp: CheckUpdate_def i l r)
qed

lemma isGameInstalled_envInstalled:
  "fst (isGameInstalled (envInstalled latest) defaultClient tr)"
  by (simp add: isGameInstalled_def Stat_def envInstalled_def envQuiet_def Let_def)

lemma getInstalledBuildID_envInstalled:
  "fst (getInstalledBuildID (envInstalled latest) defaultClient tr) = (''1001'', None)"
  by (simp add: getInstalledBuildID_def ReadFile_def buildidKey_def Fields_def space_width_def
      spaceRunes_def Trim_def envInstalled_def manifest1001_def envQuiet_def Let_def)

lemma getLatestBuildID_envInstalled_1001:
  "fst (getLatestBuildID (envInstalled ''1001'') defaultClient tr) = (''1001'', None)"
  by (simp add: getLatestBuildID_def WriteFile_def Command_def Remove_def
      buildidKey_def Fields_def space_width_def spaceRunes_def Trim_def
      envInstalled_def appInfo_def envQuiet_def defaultClient_def NewClient_def Let_def)

lemma getLatestBuildID_envInstalled_1002:
  "fst (getLatestBuildID (envInstalled ''1002'') defaultClient tr) = (''1002'', None)"
  by (simp add: getLatestBuildID_def WriteFile_def Command_def Remove_def
      buildidKey_def Fields_def space_width_def spaceRunes_def Trim_def
      envInstalled_def appInfo_def envQuiet_def defaultClient_def NewClient_def Let_def)

theorem CheckUpdate_decision_witness:
  "fst (CheckUpdate (envInstalled ''1001'') defaultClient []) = (False, None)
   \<and> fst (CheckUpdate (envInstalled ''1002'') defaultClient []) = (True, None)
   \<and> CheckUpdate envNotInstalled defaultClient [] =
       ((True, None), [EvStat ''/tf/tf'' (Some (ErrNotExist ''no such file or directory''))])
   \<and> fst (CheckUpdate envQuiet defaultClient []) = (True, None)"
proof -
  have 1: "fst (CheckUpdate (envInstalled ''1001'') defaultClient []) = (False, None)"
    using CheckUpdate_decision [of "envInstalled ''1001''" defaultClient "[]"]
      isGameInstalled_envInstalled [of "''1001''" "[]"]
      getInstalledBuildID_envInstalled [of "''1001''" "snd (isGameInstalled (envInstalled ''1001'') defaultClient [])"]
      getLatestBuildID_envInstalled_1001
        [of "snd (getInstalledBuildID (envInstalled ''1001'') defaultClient
               (snd (isGameInstalled (envInstalled ''1001'') defaultClient [])))"]
    by (simp add: case_prod_beta Let_def prod_eq_iff)
  have 2: "fst (CheckUpdate (envInstalled ''1002'') defaultClient []) = (True, None)"
    using CheckUpdate_decision [of "envInstalled ''1002''" defaultClient "[]"]
      isGameInstalled_envInstalled [of "''1002''" "[]"]
      getInstalledBuildID_envInstalled [of "''1002''" "snd (isGameInstalled (envInstalled ''1002'') defaultClient [])"]
      getLatestBuildID_envInstalled_1002
        [of "snd (getInstalledBuildID (envInstalled ''1002'') defaultClient
               (snd (isGameInstalled (envInstalled ''1002'') defaultClient [])))"]
    by (simp add: case_prod_beta Let_def prod_eq_iff)
  have n: "isGameInstalled envNotInstalled defaultClient [] =
      (False, [EvStat ''/tf/tf'' (Some (ErrNotExist ''no such file or directory''))])"
    by (simp add: isGameInstalled_def Stat_def envNotInstalled_def envQuiet_def defaultClient_def
        NewClient_def joinSlash_def Let_def)
  have 3: "CheckUpdate envNotInstalled defaultClient [] =
       ((True, None), [EvStat ''/tf/tf'' (Some (ErrNotExist ''no such file or directory''))])"
    using CheckUpdate_decision [of envNotInstalled defaultClient "[]"]
    by (simp add: n case_prod_beta Let_def)
  have q: "fst (isGameInstalled envQuiet defaultClient [])"
    "fst (getInstalledBuildID envQuiet defaultClient tr) = ([], None)" for tr
    by (simp_all add: isGameInstalled_def Stat_def getInstalledBuildID_def ReadFile_def envQuiet_def Let_def)
  have 4: "fst (CheckUpdate envQuiet defaultClient []) = (True, None)"
    using CheckUpdate_decision [of envQuiet defaultClient "[]"] q(1)
      q(2) [of "snd (isGameInstalled envQuiet defaultClient [])"]
    by (simp add: case_prod_beta Let_def prod_eq_iff)
  from 1 2 3 4 show ?thesis by blast
qed

text \<open>
  C2 as stated fails when the manifest is there and holds no build id: the game is
  installed and the installed build id that was read is empty, and yet
  \<^verbatim>\<open>CheckUpdate\<close> returns false with an error, not (true, nil).
\<close>

theorem CheckUpdate_decision_counterexample:
  "fst (isGameInstalled envMalformed defaultClient [])
   \<and> fst (fst (getInstalledBuildID envMalformed defaultClient
              (snd (isGameInstalled envMalformed defaultClient [])))) = []
   \<and> fst (CheckUpdate envMalformed defaultClient []) =
       (False, Some (Errorf ''failed to get installed build ID: buildid not found in manifest''
                       (Some (Errorf ''buildid not found in manifest'' None))))"
  by (simp add: CheckUpdate_def isGameInstalled_def Stat_def getInstalledBuildID_def ReadFile_def
      buildidKey_def envMalformed_def envQuiet_def Let_def)

lemma Split_line:
  "CHR 0x0A \<notin> set x \<Longrightarrow> Split (x @ CHR 0x0A # y) = x # Split y"
  by (induction x) auto

lemma directives_appInfoScript:
  assumes "CHR 0x0A \<notin> set appID"
  shows "directives (appInfoScript appID) =
           [''@ShutdownOnFailedCommand'', ''@NoPromptForPassword'', ''login'', ''app_info_print'', ''quit'']"
proof -
  have e: "appInfoScript appID =
      ''@ShutdownOnFailedCommand 1'' @ CHR 0x0A # ''@NoPromptForPassword 1'' @ CHR 0x0A #
      ''login anonymous'' @ CHR 0x0A # (''app_info_print '' @ appID) @ CHR 0x0A # ''quit'' @ CHR 0x0A # []"
    by (simp add: appInfoScript_def)
  have s: "Split (appInfoScript appID) =
      [''@ShutdownOnFailedCommand 1'', ''@NoPromptForPassword 1'', ''login anonymous'',
       ''app_info_print '' @ appID, ''quit'', []]"
    unfolding e using assms
    apply (subst Split_line, simp)
    apply (subst Split_line, simp)
    apply (subst Split_line, simp)
    apply (subst Split_line, simp)
    apply (subst Split_line, simp)
    apply simp
    done
  show ?thesis by (simp add: directives_def s directiveOf_def)
qed

lemma toolScripts_inert:
  "list_all inert pre \<Longrightarrow> toolScripts fs (pre @ q) = toolScripts fs q"
proof (induction pre)
  case Nil
  then show ?case by simp
next
  case (Cons ev pre)
  then show ?case by (cases ev) simp_all
qed

lemma toolRuns_inert:
  "list_all inert pre \<Longrightarrow> toolRuns (pre @ q) = toolRuns q"
proof (induction pre)
  case Nil
  then show ?case by simp
next
  case (Cons ev pre)
  then show ?case by (cases ev) (simp_all add: toolRuns_def)
qed

lemma isGameInstalled_inert:
  "\<exists>sts. snd (isGameInstalled E c tr) = tr @ sts \<and> list_all inert sts"
  by (auto simp: isGameInstalled_def Stat_def Let_def split: prod.splits)

lemma getInstalledBuildID_trace:
  "\<exists>r. snd (getInstalledBuildID E c tr) = tr @ [EvReadFile (manifestPath E c) r]"
  by (auto simp: getInstalledBuildID_def ReadFile_def Let_def split: sum.splits option.splits)

lemma getLatestBuildID_trace:
  "(\<exists>w. snd (getLatestBuildID E c tr) =
          tr @ [EvWriteFile (appInfoScriptPath E c) (appInfoScript (steamAppID c)) (Some w)])
   \<or> (\<exists>r rr. snd (getLatestBuildID E c tr) =
          tr @ [EvWriteFile (appInfoScriptPath E c) (appInfoScript (steamAppID c)) None,
                EvExec (steamcmdProgram c) [''+runscript'', appInfoScriptPath E c] r,
                EvRemove (appInfoScriptPath E c) rr])"
  by (auto simp: getLatestBuildID_def WriteFile_def Command_def Remove_def Let_def
      split: option.splits prod.splits)

lemma CheckUpdate_trace:
  "\<exists>pre q. snd (CheckUpdate E c tr) = tr @ pre @ q \<and> list_all inert pre
     \<and> (q = []
        \<or> (\<exists>w. q = [EvWriteFile (appInfoScriptPath E c) (appInfoScript (steamAppID c)) (Some w)])
        \<or> (\<exists>r rr. q = [EvWriteFile (appInfoScriptPath E c) (appInfoScript (steamAppID c)) None,
                EvExec (steamcmdProgram c) [''+runscript'', appInfoScriptPath E c] r,
                EvRemove (appInfoScriptPath E c) rr]))"
proof -
  obtain installed tr1 where i: "isGameInstalled E c tr = (installed, tr1)"
    by (cases "isGameInstalled E c tr") auto
  from isGameInstalled_inert [of E c tr] i obtain sts where s: "tr1 = tr @ sts" "list_all inert sts" by auto
  obtain localID lerr tr2 where l: "getInstalledBuildID E c tr1 = ((localID, lerr), tr2)"
    by (cases "getInstalledBuildID E c tr1") auto
  from getInstalledBuildID_trace [of E c tr1] l obtain rd where rd: "tr2 = tr1 @ [EvReadFile (manifestPath E c) rd]" by auto
  obtain remoteID rerr tr3 where r: "getLatestBuildID E c tr2 = ((remoteID, rerr), tr3)"
    by (cases "getLatestBuildID E c tr2") auto
  let ?P = "\<lambda>t. \<exists>pre q. t = tr @ pre @ q \<and> list_all inert pre
     \<and> (q = []
        \<or> (\<exists>w. q = [EvWriteFile (appInfoScriptPath E c) (appInfoScript (steamAppID c)) (Some w)])
        \<or> (\<exists>r rr. q = [EvWriteFile (appInfoScriptPath E c) (appInfoScript (steamAppID c)) None,
                EvExec (steamcmdProgram c) [''+runscript'', appInfoScriptPath E c] r,
                EvRemove (appInfoScriptPath E c) rr]))"
  have p1: "?P tr1" using s by (intro exI [of _ sts] exI [of _ "[]"]) simp
  have i2: "list_all inert (sts @ [EvReadFile (manifestPath E c) rd])" using s(2) by simp
  have p2: "?P tr2" using s(1) rd i2 by (intro exI [of _ "sts @ [EvReadFile (manifestPath E c) rd]"] exI [of _ "[]"]) simp
  have p3: "?P tr3"
  proof -
    from getLatestBuildID_trace [of E c tr2] r obtain q where
      q: "tr3 = tr2 @ q"
        "(\<exists>w. q = [EvWriteFile (appInfoScriptPath E c) (appInfoScript (steamAppID c)) (Some w)])
        \<or> (\<exists>r rr. q = [EvWriteFile (appInfoScriptPath E c) (appInfoScript (steamAppID c)) None,
                EvExec (steamcmdProgram c) [''+runscript'', appInfoScriptPath E c] r,
                EvRemove (appInfoScriptPath E c) rr])"
      by auto
    have "tr3 = tr @ (sts @ [EvReadFile (manifestPath E c) rd]) @ q" using q(1) rd s(1) by simp
    with i2 q(2) show ?thesis by blast
  qed
  have "snd (CheckUpdate E c tr) = tr1 \<or> snd (CheckUpdate E c tr) = tr2 \<or> snd (CheckUpdate E c tr) = tr3"
    by (auto simp: CheckUpdate_def i l r split: option.splits)
  with p1 p2 p3 show ?thesis by metis
qed

text \<open>
  C1, as the code has it. \<^verbatim>\<open>CheckUpdate\<close> never runs the update script: it runs the
  tool at most once, and then on the script of the metadata query, which it has just
  written. When the application id holds no line feed, the directives of that script
  are two settings, \<^verbatim>\<open>login\<close>, \<^verbatim>\<open>app_info_print\<close> and \<^verbatim>\<open>quit\<close>, and none is
  \<^verbatim>\<open>app_update\<close>.
\<close>

theorem CheckUpdate_metadata_only:
  "\<exists>ext. snd (CheckUpdate E c tr) = tr @ ext
     \<and> toolRuns ext \<le> 1
     \<and> (toolScripts fs ext = [] \<or> toolScripts fs ext = [Some (appInfoScript (steamAppID c))])
     \<and> (CHR 0x0A \<notin> set (steamAppID c) \<longrightarrow>
          directives (appInfoScript (steamAppID c)) =
            [''@ShutdownOnFailedCommand'', ''@NoPromptForPassword'', ''login'', ''app_info_print'', ''quit'']
          \<and> ''app_update'' \<notin> set (directives (appInfoScript (steamAppID c))))"
proof -
  from CheckUpdate_trace [of E c tr] obtain pre q where
    t: "snd (CheckUpdate E c tr) = tr @ pre @ q" and p: "list_all inert pre"
    and q: "q = []
        \<or> (\<exists>w. q = [EvWriteFile (appInfoScriptPath E c) (appInfoScript (steamAppID c)) (Some w)])
        \<or> (\<exists>r rr. q = [EvWriteFile (appInfoScriptPath E c) (appInfoScript (steamAppID c)) None,
                EvExec (steamcmdProgram c) [''+runscript'', appInfoScriptPath E c] r,
                EvRemove (appInfoScriptPath E c) rr])"
    by blast
  have "toolRuns q \<le> 1" using q by (auto simp: toolRuns_def)
  then have n: "toolRuns (pre @ q) \<le> 1" by (simp only: toolRuns_inert [OF p])
  have s: "toolScripts fs (pre @ q) = [] \<or> toolScripts fs (pre @ q) = [Some (appInfoScript (steamAppID c))]"
    using q by (auto simp: toolScripts_inert [OF p])
  have d: "CHR 0x0A \<notin> set (steamAppID c) \<longrightarrow>
          directives (appInfoScript (steamAppID c)) =
            [''@ShutdownOnFailedCommand'', ''@NoPromptForPassword'', ''login'', ''app_info_print'', ''quit'']
          \<and> ''app_update'' \<notin> set (directives (appInfoScript (steamAppID c)))"
    by (simp add: directives_appInfoScript)
  from t n s d show ?thesis by blast
qed

lemma CheckUpdate_envInstalled_scripts:
  "toolScripts Map.empty (snd (CheckUpdate (envInstalled ''1001'') defaultClient [])) =
     [Some (appInfoScript ''232250'')]"
  "toolScripts Map.empty (snd (CheckUpdate (envInstalled ''1001'') injectedClient [])) =
     [Some (appInfoScript ''232250\<newline>app_update 232250'')]"
  by (simp_all add: CheckUpdate_def isGameInstalled_def Stat_def getInstalledBuildID_def ReadFile_def
      manifestPath_def getLatestBuildID_def WriteFile_def Command_def Remove_def appInfoScriptPath_def
      steamcmdProgram_def buildidKey_def Fields_def space_width_def spaceRunes_def Trim_def
      envInstalled_def manifest1001_def appInfo_def envQuiet_def injectedClient_def defaultClient_def
      NewClient_def joinSlash_def Let_def)

theorem CheckUpdate_metadata_only_witness:
  "toolScripts Map.empty (snd (CheckUpdate (envInstalled ''1001'') defaultClient [])) =
     [Some (appInfoScript ''232250'')]
   \<and> directives (appInfoScript ''232250'') =
       [''@ShutdownOnFailedCommand'', ''@NoPromptForPassword'', ''login'', ''app_info_print'', ''quit'']
   \<and> ''app_update'' \<notin> set (directives (appInfoScript ''232250''))"
proof -
  have a: "steamAppID defaultClient = ''232250''" by (simp add: defaultClient_def NewClient_def)
  from CheckUpdate_metadata_only [of "envInstalled ''1001''" defaultClient "[]" Map.empty]
  have "directives (appInfoScript ''232250'') =
       [''@ShutdownOnFailedCommand'', ''@NoPromptForPassword'', ''login'', ''app_info_print'', ''quit'']
   \<and> ''app_update'' \<notin> set (directives (appInfoScript ''232250''))"
    unfolding a by auto
  with CheckUpdate_envInstalled_scripts(1) show ?thesis by simp
qed

text \<open>
  C1 as stated fails in two ways. With the default configuration the script of the
  metadata query has two settings before \<^verbatim>\<open>login\<close>, so it does not consist of
  \<^verbatim>\<open>login\<close>, \<^verbatim>\<open>app_info_print\<close> and \<^verbatim>\<open>quit\<close> alone. And an application id with a
  second line puts that line into the script: here it is an \<^verbatim>\<open>app_update\<close> directive.
\<close>

theorem CheckUpdate_script_counterexample:
  "map (map_option directives)
     (toolScripts Map.empty (snd (CheckUpdate (envInstalled ''1001'') defaultClient []))) =
     [Some [''@ShutdownOnFailedCommand'', ''@NoPromptForPassword'', ''login'', ''app_info_print'', ''quit'']]
   \<and> map (map_option directives)
     (toolScripts Map.empty (snd (CheckUpdate (envInstalled ''1001'') injectedClient []))) =
     [Some [''@ShutdownOnFailedCommand'', ''@NoPromptForPassword'', ''login'', ''app_info_print'',
            ''app_update'', ''quit'']]"
  by (simp add: CheckUpdate_envInstalled_scripts directives_def appInfoScript_def directiveOf_def)

subsection \<open>Restarting the workloads\<close>

lemma restartKeys_append: "restartKeys (a @ b) = restartKeys a @ restartKeys b"
proof (induction a)
  case Nil
  then show ?case by simp
next
  case (Cons ev a)
  then show ?case by (cases ev) simp_all
qed

lemma GetPodOwner_no_restart:
  "\<exists>g. snd (GetPodOwner E k pod tr) = tr @ g \<and> restartKeys g = []"
  by (auto simp: GetPodOwner_def ReplicaSetsGet_def Let_def split: list.splits sum.splits)

lemma restartWorkload_cases:
  assumes "restartWorkload E k kind name tr = (r, tr')"
  shows "(tr' = tr \<and> r \<noteq> None) \<or>
         (\<exists>meth. methodKind meth = kind \<and> r = client_Restart E tr meth (namespace k) name
            \<and> tr' = tr @ [EvRestart meth (namespace k) name r])"
  using assms by (auto simp: restartWorkload_def Restart_def Let_def split: if_splits)

lemma lookupKey_update:
  "lookupKey (AList.update key True m) key' \<longleftrightarrow> key' = key \<or> lookupKey m key'"
  by (simp add: lookupKey_def update_conv')

lemma restartLoop_dedup:
  "\<exists>ext. snd (restartLoop E k pods m tr) = tr @ ext \<and> noRedispatch (restartKeys ext)
      \<and> (\<forall>key\<in>fst ` set (restartKeys ext). \<not> lookupKey m key)"
proof (induction pods arbitrary: m tr)
  case Nil
  show ?case by simp
next
  case (Cons pod pods)
  obtain ownerKind ownerName err tr1 where g: "GetPodOwner E k pod tr = ((ownerKind, ownerName, err), tr1)"
    by (cases "GetPodOwner E k pod tr") auto
  from GetPodOwner_no_restart [of E k pod tr] g obtain gs where gs: "tr1 = tr @ gs" "restartKeys gs = []"
    by auto
  let ?key = "workloadKey ownerKind ownerName"
  show ?case
  proof (cases "err \<noteq> None \<or> lookupKey m ?key")
    case True
    then have e: "restartLoop E k (pod # pods) m tr = restartLoop E k pods m tr1"
      using g by (auto split: option.splits)
    from Cons.IH [of m tr1] obtain ext where x: "snd (restartLoop E k pods m tr1) = tr1 @ ext"
      "noRedispatch (restartKeys ext)" "\<forall>key\<in>fst ` set (restartKeys ext). \<not> lookupKey m key" by blast
    show ?thesis
      using x gs by (intro exI [of _ "gs @ ext"]) (simp add: e restartKeys_append del: restartLoop.simps)
  next
    case False
    then have en: "err = None" and nk: "\<not> lookupKey m ?key" by simp_all
    obtain rerr tr2 where w: "restartWorkload E k ownerKind ownerName tr1 = (rerr, tr2)"
      by (cases "restartWorkload E k ownerKind ownerName tr1") auto
    from restartWorkload_cases [OF w] consider
      (none) "tr2 = tr1" "rerr \<noteq> None"
      | (call) meth where "methodKind meth = ownerKind" "tr2 = tr1 @ [EvRestart meth (namespace k) ownerName rerr]"
      by blast
    then show ?thesis
    proof cases
      case none
      then have e: "restartLoop E k (pod # pods) m tr = restartLoop E k pods m tr1"
        using g en nk w by (auto split: option.splits)
      from Cons.IH [of m tr1] obtain ext where x: "snd (restartLoop E k pods m tr1) = tr1 @ ext"
        "noRedispatch (restartKeys ext)" "\<forall>key\<in>fst ` set (restartKeys ext). \<not> lookupKey m key" by blast
      show ?thesis
        using x gs by (intro exI [of _ "gs @ ext"]) (simp add: e restartKeys_append del: restartLoop.simps)
    next
      case call
      let ?ev = "EvRestart meth (namespace k) ownerName rerr"
      have rk: "restartKeys [?ev] = [(?key, rerr = None)]" using call(1) by simp
      show ?thesis
      proof (cases rerr)
        case (Some e')
        then have e: "restartLoop E k (pod # pods) m tr = restartLoop E k pods m tr2"
          using g en nk w by simp
        from Cons.IH [of m tr2] obtain ext where x: "snd (restartLoop E k pods m tr2) = tr2 @ ext"
          "noRedispatch (restartKeys ext)" "\<forall>key\<in>fst ` set (restartKeys ext). \<not> lookupKey m key" by blast
        show ?thesis
          using x gs call(2) rk nk Some
          by (intro exI [of _ "gs @ [?ev] @ ext"]) (simp add: e restartKeys_append del: restartLoop.simps)
      next
        case None
        then have e: "restartLoop E k (pod # pods) m tr = restartLoop E k pods (AList.update ?key True m) tr2"
          using g en nk w by simp
        from Cons.IH [of "AList.update ?key True m" tr2] obtain ext where
          x: "snd (restartLoop E k pods (AList.update ?key True m) tr2) = tr2 @ ext"
          "noRedispatch (restartKeys ext)"
          "\<forall>key\<in>fst ` set (restartKeys ext). \<not> lookupKey (AList.update ?key True m) key" by blast
        from x(3) have y: "?key \<notin> fst ` set (restartKeys ext)"
          "\<forall>key\<in>fst ` set (restartKeys ext). \<not> lookupKey m key"
          by (auto simp: lookupKey_update)
        show ?thesis
          using x(1,2) y gs call(2) rk nk None
          by (intro exI [of _ "gs @ [?ev] @ ext"]) (simp add: e restartKeys_append del: restartLoop.simps)
      qed
    qed
  qed
qed

lemma noRedispatch_distinct:
  "noRedispatch ks \<Longrightarrow> \<forall>x\<in>set ks. snd x \<Longrightarrow> distinct (map fst ks)"
  by (induction ks rule: noRedispatch.induct) auto

lemma GetPodOwner_stable:
  assumes "\<forall>t t' ns n. replicaSets_Get E t ns n = replicaSets_Get E t' ns n"
  shows "fst (GetPodOwner E k pod tr) = fst (GetPodOwner E k pod [])"
proof -
  have "replicaSets_Get E tr ns n = replicaSets_Get E [] ns n" for ns n
    using assms by blast
  then show ?thesis
    by (simp add: GetPodOwner_def ReplicaSetsGet_def Let_def split: list.splits sum.splits)
qed

lemma restartWorkload_supported:
  assumes "kind \<in> supportedKinds"
  shows "\<exists>meth. methodKind meth = kind
           \<and> restartWorkload E k kind name tr =
               (client_Restart E tr meth (namespace k) name,
                tr @ [EvRestart meth (namespace k) name (client_Restart E tr meth (namespace k) name)])"
proof -
  from assms consider "kind = ''Deployment''" | "kind = ''StatefulSet''" | "kind = ''DaemonSet''" | "kind = ''ReplicaSet''"
    by (auto simp: supportedKinds_def)
  then show ?thesis
  proof cases
    case 1
    then show ?thesis by (intro exI [of _ RestartDeployment]) (simp add: restartWorkload_def Restart_def Let_def)
  next
    case 2
    then show ?thesis by (intro exI [of _ RestartStatefulSet]) (simp add: restartWorkload_def Restart_def Let_def)
  next
    case 3
    then show ?thesis by (intro exI [of _ RestartDaemonSet]) (simp add: restartWorkload_def Restart_def Let_def)
  next
    case 4
    then show ?thesis by (intro exI [of _ RestartReplicaSet]) (simp add: restartWorkload_def Restart_def Let_def)
  qed
qed

lemma workloadKey_inj:
  assumes "kd \<in> supportedKinds" "kd' \<in> supportedKinds" "workloadKey kd nm = workloadKey kd' nm'"
  shows "kd = kd' \<and> nm = nm'"
  using assms by (auto simp: supportedKinds_def workloadKey_def)

lemma restartLoop_count:
  assumes stable: "\<forall>t t' ns n. replicaSets_Get E t ns n = replicaSets_Get E t' ns n"
    and ok: "\<forall>t meth ns n. client_Restart E t meth ns n = None"
    and res: "\<forall>pod\<in>set pods. snd (snd (fst (GetPodOwner E k pod []))) = None
                \<and> fst (resolvedOwner E k pod) \<in> supportedKinds"
  shows "length (restartKeys (snd (restartLoop E k pods m tr))) =
           length (restartKeys tr)
           + card ((\<lambda>pod. case resolvedOwner E k pod of (kd, nm) \<Rightarrow> workloadKey kd nm) ` set pods
                   - {key. lookupKey m key})"
  using res
proof (induction pods arbitrary: m tr)
  case Nil
  show ?case by simp
next
  case (Cons pod pods)
  let ?keyOf = "\<lambda>pod. case resolvedOwner E k pod of (kd, nm) \<Rightarrow> workloadKey kd nm"
  obtain ownerKind ownerName err tr1 where g: "GetPodOwner E k pod tr = ((ownerKind, ownerName, err), tr1)"
    by (cases "GetPodOwner E k pod tr") auto
  from GetPodOwner_no_restart [of E k pod tr] g obtain gs where gs: "tr1 = tr @ gs" "restartKeys gs = []"
    by auto
  have f0: "fst (GetPodOwner E k pod []) = (ownerKind, ownerName, err)"
    using GetPodOwner_stable [OF stable, of k pod tr] g by simp
  from Cons.prems f0 have en: "err = None" and sk: "ownerKind \<in> supportedKinds"
    and ro: "resolvedOwner E k pod = (ownerKind, ownerName)"
    by (simp_all add: resolvedOwner_def)
  let ?key = "workloadKey ownerKind ownerName"
  have kp: "?keyOf pod = ?key" by (simp add: ro)
  have r1: "restartKeys tr1 = restartKeys tr" by (simp add: gs restartKeys_append)
  have res': "\<forall>pod\<in>set pods. snd (snd (fst (GetPodOwner E k pod []))) = None
                \<and> fst (resolvedOwner E k pod) \<in> supportedKinds"
    using Cons.prems by simp
  show ?case
  proof (cases "lookupKey m ?key")
    case True
    then have e: "restartLoop E k (pod # pods) m tr = restartLoop E k pods m tr1"
      using g en by simp
    have s: "?keyOf ` set (pod # pods) - {key. lookupKey m key} = ?keyOf ` set pods - {key. lookupKey m key}"
      using True kp by auto
    show ?thesis
      unfolding e s using Cons.IH [OF res', of m tr1] r1 by simp
  next
    case False
    from restartWorkload_supported [OF sk, of E k ownerName tr1] ok obtain meth where
      m: "methodKind meth = ownerKind"
      and w: "restartWorkload E k ownerKind ownerName tr1 = (None, tr1 @ [EvRestart meth (namespace k) ownerName None])"
      by auto
    let ?tr2 = "tr1 @ [EvRestart meth (namespace k) ownerName None]"
    have e: "restartLoop E k (pod # pods) m tr = restartLoop E k pods (AList.update ?key True m) ?tr2"
      using g en False w by simp
    have r2: "length (restartKeys ?tr2) = length (restartKeys tr) + 1"
      by (simp add: restartKeys_append r1)
    have u: "{key'. lookupKey (AList.update ?key True m) key'} = insert ?key {key. lookupKey m key}"
      by (auto simp: lookupKey_update)
    let ?A = "?keyOf ` set pods"
    let ?S = "{key. lookupKey m key}"
    have s: "?keyOf ` set (pod # pods) - ?S = insert ?key (?A - insert ?key ?S)"
      using False kp by auto
    have c: "card (insert ?key (?A - insert ?key ?S)) = card (?A - insert ?key ?S) + 1"
      by (subst card_insert_disjoint) auto
    show ?thesis
      unfolding e s c using Cons.IH [OF res', of "AList.update ?key True m" ?tr2] r2 u by simp
  qed
qed

text \<open>
  C8, as the code has it. Within one cycle of \<^verbatim>\<open>restartPods\<close> no workload is
  dispatched again once a dispatch for its key has succeeded; a workload whose restart
  failed is dispatched again for the next pod that resolves to it. So when every
  dispatch succeeds, the keys dispatched are distinct. And when, besides, the owner of
  each pod resolves the same way throughout the cycle, without error and to a supported
  kind, there are exactly as many dispatches as there are distinct resolved owners: two
  for two owners, whatever the number of pods.
\<close>

theorem restartPods_dedup:
  "(\<exists>ext. snd (restartPods E uc tr) = tr @ ext \<and> noRedispatch (restartKeys ext)
      \<and> ((\<forall>x\<in>set (restartKeys ext). snd x) \<longrightarrow> distinct (map fst (restartKeys ext))))
   \<and> ((\<forall>t t' ns n. replicaSets_Get E t ns n = replicaSets_Get E t' ns n)
       \<and> (\<forall>t meth ns n. client_Restart E t meth ns n = None)
       \<and> pods_List E tr (namespace (k8sClient uc)) (PodSelector (config uc)) = Inr pods
       \<and> (\<forall>pod\<in>set pods. snd (snd (fst (GetPodOwner E (k8sClient uc) pod []))) = None
             \<and> fst (resolvedOwner E (k8sClient uc) pod) \<in> supportedKinds)
       \<longrightarrow> length (restartKeys (snd (restartPods E uc tr))) =
             length (restartKeys tr) + card (resolvedOwner E (k8sClient uc) ` set pods))"
proof -
  let ?k = "k8sClient uc"
  let ?ans = "pods_List E tr (namespace ?k) (PodSelector (config uc))"
  let ?l = "EvListPods (namespace ?k) (PodSelector (config uc)) ?ans"
  have lp: "ListPodsBySelector E ?k (PodSelector (config uc)) tr =
      (case ?ans of Inl err \<Rightarrow> ([], Some (Errorf (''failed to list pods: '' @ Error err) (Some err)))
                  | Inr items \<Rightarrow> (items, None), tr @ [?l])"
    by (simp add: ListPodsBySelector_def PodsList_def Let_def split: sum.splits)
  have p1: "\<exists>ext. snd (restartPods E uc tr) = tr @ ext \<and> noRedispatch (restartKeys ext)"
  proof (cases "\<exists>pods. ?ans = Inr pods \<and> pods \<noteq> []")
    case False
    then have "snd (restartPods E uc tr) = tr @ [?l]"
      by (cases ?ans) (auto simp: restartPods_def lp)
    then show ?thesis by (intro exI [of _ "[?l]"]) simp
  next
    case True
    then obtain ps where ps: "?ans = Inr ps" "ps \<noteq> []" by blast
    from restartLoop_dedup [of E ?k ps "[]" "tr @ [?l]"] obtain ext where
      x: "snd (restartLoop E ?k ps [] (tr @ [?l])) = (tr @ [?l]) @ ext" "noRedispatch (restartKeys ext)"
      by blast
    have "snd (restartPods E uc tr) = snd (restartLoop E ?k ps [] (tr @ [?l]))"
      using ps by (simp add: restartPods_def lp split: prod.splits)
    with x show ?thesis
      by (intro exI [of _ "[?l] @ ext"]) (simp add: restartKeys_append)
  qed
  then obtain ext where e: "snd (restartPods E uc tr) = tr @ ext" "noRedispatch (restartKeys ext)" by blast
  have p1': "\<exists>ext. snd (restartPods E uc tr) = tr @ ext \<and> noRedispatch (restartKeys ext)
      \<and> ((\<forall>x\<in>set (restartKeys ext). snd x) \<longrightarrow> distinct (map fst (restartKeys ext)))"
    using e noRedispatch_distinct [OF e(2)] by blast
  have p2: "length (restartKeys (snd (restartPods E uc tr))) =
             length (restartKeys tr) + card (resolvedOwner E ?k ` set pods)"
    if stable: "\<forall>t t' ns n. replicaSets_Get E t ns n = replicaSets_Get E t' ns n"
      and ok: "\<forall>t meth ns n. client_Restart E t meth ns n = None"
      and ans: "?ans = Inr pods"
      and res: "\<forall>pod\<in>set pods. snd (snd (fst (GetPodOwner E ?k pod []))) = None
             \<and> fst (resolvedOwner E ?k pod) \<in> supportedKinds"
  proof (cases "pods = []")
    case True
    then show ?thesis using ans by (simp add: restartPods_def lp restartKeys_append)
  next
    case False
    let ?keyOf = "\<lambda>pod. case resolvedOwner E ?k pod of (kd, nm) \<Rightarrow> workloadKey kd nm"
    have s: "snd (restartPods E uc tr) = snd (restartLoop E ?k pods [] (tr @ [?l]))"
      using False ans by (simp add: restartPods_def lp split: prod.splits)
    have inj: "inj_on (\<lambda>(kd, nm). workloadKey kd nm) (resolvedOwner E ?k ` set pods)"
    proof (rule inj_onI)
      fix x y
      assume x: "x \<in> resolvedOwner E ?k ` set pods" and y: "y \<in> resolvedOwner E ?k ` set pods"
        and eq: "(case x of (kd, nm) \<Rightarrow> workloadKey kd nm) = (case y of (kd, nm) \<Rightarrow> workloadKey kd nm)"
      from x res have "fst x \<in> supportedKinds" by auto
      moreover from y res have "fst y \<in> supportedKinds" by auto
      ultimately show "x = y"
        using eq workloadKey_inj [of "fst x" "fst y" "snd x" "snd y"]
        by (simp add: case_prod_beta prod_eq_iff)
    qed
    have im: "?keyOf ` set pods = (\<lambda>(kd, nm). workloadKey kd nm) ` (resolvedOwner E ?k ` set pods)"
      by (simp add: image_image)
    have c: "card (?keyOf ` set pods) = card (resolvedOwner E ?k ` set pods)"
      unfolding im by (rule card_image [OF inj])
    have l0: "{key. lookupKey [] key} = {}" by (simp add: lookupKey_def)
    from restartLoop_count [OF stable ok res, of "[]" "tr @ [?l]"]
    show ?thesis by (simp add: s l0 c restartKeys_append)
  qed
  from p1' p2 show ?thesis by blast
qed

lemma restartPods_envThreePods:
  "restartKeys (snd (restartPods envThreePods defaultController [])) =
     [(''Deployment/web'', True), (''StatefulSet/db'', True)]"
  "restartKeys (snd (restartPods envRestartFails defaultController [])) =
     [(''Deployment/web'', False), (''Deployment/web'', False), (''StatefulSet/db'', False)]"
  by (simp_all add: restartPods_def ListPodsBySelector_def PodsList_def GetPodOwner_def ReplicaSetsGet_def
      restartWorkload_def Restart_def workloadKey_def lookupKey_def threePods_def
      envRestartFails_def envThreePods_def envQuiet_def defaultController_def NewUpdateController_def
      defaultConfig_def Let_def)

lemma resolvedOwner_threePods:
  "resolvedOwner envThreePods \<lparr>namespace = ''default''\<rparr> ` set threePods =
     {(''Deployment'', ''web''), (''StatefulSet'', ''db'')}"
  "resolvedOwner envRestartFails \<lparr>namespace = ''default''\<rparr> ` set threePods =
     {(''Deployment'', ''web''), (''StatefulSet'', ''db'')}"
  by (simp_all add: resolvedOwner_def GetPodOwner_def ReplicaSetsGet_def threePods_def
      envRestartFails_def envThreePods_def envQuiet_def Let_def)

theorem restartPods_dedup_witness:
  "length threePods = 3
   \<and> card (resolvedOwner envThreePods (k8sClient defaultController) ` set threePods) = 2
   \<and> length (restartKeys (snd (restartPods envThreePods defaultController []))) = 2
   \<and> distinct (map fst (restartKeys (snd (restartPods envThreePods defaultController []))))"
proof -
  have k: "k8sClient defaultController = \<lparr>namespace = ''default''\<rparr>"
    by (simp add: defaultController_def NewUpdateController_def)
  have c: "card (resolvedOwner envThreePods (k8sClient defaultController) ` set threePods) = 2"
    unfolding k resolvedOwner_threePods by simp
  have h: "(\<forall>t t' ns n. replicaSets_Get envThreePods t ns n = replicaSets_Get envThreePods t' ns n)
       \<and> (\<forall>t meth ns n. client_Restart envThreePods t meth ns n = None)
       \<and> pods_List envThreePods [] (namespace (k8sClient defaultController))
            (PodSelector (config defaultController)) = Inr threePods
       \<and> (\<forall>pod\<in>set threePods. snd (snd (fst (GetPodOwner envThreePods (k8sClient defaultController) pod []))) = None
             \<and> fst (resolvedOwner envThreePods (k8sClient defaultController) pod) \<in> supportedKinds)"
    by (simp add: envThreePods_def envQuiet_def threePods_def resolvedOwner_def GetPodOwner_def
        ReplicaSetsGet_def supportedKinds_def Let_def)
  from restartPods_dedup [of envThreePods defaultController "[]" threePods] h
  have n: "length (restartKeys (snd (restartPods envThreePods defaultController []))) =
             length (restartKeys []) + card (resolvedOwner envThreePods (k8sClient defaultController) ` set threePods)"
    by blast
  have d: "distinct (map fst (restartKeys (snd (restartPods envThreePods defaultController []))))"
    by (simp add: restartPods_envThreePods)
  from n c d show ?thesis by (simp add: threePods_def)
qed

text \<open>
  C8 as stated fails when restarts fail: the three pods resolve to two owners, and the
  deployment \<open>web\<close> is dispatched once for each of its two pods, three dispatches in
  all.
\<close>

theorem restartPods_dedup_counterexample:
  "card (resolvedOwner envRestartFails \<lparr>namespace = ''default''\<rparr> ` set threePods) = 2
   \<and> map fst (restartKeys (snd (restartPods envRestartFails defaultController []))) =
       [''Deployment/web'', ''Deployment/web'', ''StatefulSet/db'']"
  by (simp add: restartPods_envThreePods resolvedOwner_threePods)

subsection \<open>Reading the installed build id\<close>























end
